theory Spec2Isabelle
  imports Main "HOL-Library.AList"
begin

section \<open>Values, errors and the outside world\<close>

text \<open>
  JavaScript values as far as blackmamba.js looks at them. \<open>Fn\<close> is a function of the
  loaded code (a factory, a settings consumer, a command), known by a name that the
  world interprets. \<open>Native\<close> is a function object the instance creates for itself
  (the bound methods and directory getters the constructor puts into the module table),
  \<open>BuilderRef\<close> the address of a Builder made by \<open>createBuilder\<close>.
  An \<open>Obj\<close> lists the properties an object has apart from what the standard prototypes
  give it; what a value inherits is the world's to say (\<open>inherited\<close> below). Functions of
  the loaded code are run by the world and do not call back into the instance; the
  instance's own functions do, when they are called.
\<close>

datatype jsval =
    Undefined
  | Null
  | Bool bool
  | Num int
  | Str string
  | Arr "jsval list"
  | Obj "(string \<times> jsval) list"
  | Fn string
  | Native string
  | BuilderRef nat

text \<open>
  Every \<open>throw new Error(...)\<close> of the source is one constructor, named after the failure
  it reports; \<open>TypeError\<close> and \<open>ReferenceError\<close> are raised by the language itself;
  \<open>Thrown\<close> is whatever a loader or a function of the loaded code throws.
\<close>

datatype error =
    ValidationError string
  | PackageLoadError string error
  | SourceImportError jsval error
  | DescriptorError jsval
  | DependencyNameError jsval jsval
  | TypeError
  | ReferenceError string
  | Thrown jsval

text \<open>
  The external collaborators: \<open>loadJson\<close> (the instance's JSON loader, by resolved path),
  \<open>dynImport\<close> (the dynamic \<open>import()\<close>, by resolved path), \<open>call\<close> (the plain call
  \<open>f(x)\<close> of a function of the loaded code), \<open>invoke\<close> (the call \<open>o[k](x)\<close> of such a
  function as a member: function, receiver, argument), \<open>inherited\<close> (the property named
  \<open>k\<close> that a value has without its representation here showing it: a member of its
  prototype chain such as \<open>toString\<close> or \<open>call\<close>, a property of a function, an element of
  an array; \<open>undefined\<close> when there is none) and \<open>toString\<close> (the language's string
  conversion of a value that is not a string).
\<close>

record world =
  loadJson :: "string \<Rightarrow> error + jsval"
  dynImport :: "string \<Rightarrow> error + jsval"
  call :: "string \<Rightarrow> jsval \<Rightarrow> error + jsval"
  invoke :: "string \<Rightarrow> jsval \<Rightarrow> jsval \<Rightarrow> error + jsval"
  inherited :: "jsval \<Rightarrow> string \<Rightarrow> jsval"
  toString :: "jsval \<Rightarrow> string"

datatype event = ConsoleLog string | LoadJson string | DynImport string

record builder =
  factory :: jsval
  dependencies :: jsval
  settings :: jsval

text \<open>
  The private fields of an instance. The three Maps are association lists in insertion
  order, \<open>heap\<close> holds the Builders by address, \<open>trace\<close> records console output and every
  invocation of the two loaders.
\<close>

record state =
  modules :: "(jsval \<times> jsval) list"
  builders :: "(jsval \<times> jsval) list"
  packages :: "jsval set"
  sources :: "(jsval \<times> jsval) list"
  directories :: "(string \<times> string) list"
  defaultApp :: jsval
  defaultCmd :: jsval
  defaultData :: jsval
  heap :: "builder list"
  trace :: "event list"

record config =
  cfg_rootDirectory :: "string option"
  cfg_sourcesDirectory :: "string option"
  cfg_packagesDirectory :: "string option"
  cfg_defaultApp :: jsval
  cfg_defaultCmd :: jsval
  cfg_defaultData :: jsval

type_synonym 'a res = "(error + 'a) \<times> state"

type_synonym registrar = "state \<Rightarrow> jsval \<Rightarrow> jsval \<Rightarrow> jsval res option"

subsection \<open>The language's own operations\<close>

fun truthy :: "jsval \<Rightarrow> bool" where
  "truthy Undefined = False"
| "truthy Null = False"
| "truthy (Bool b) = b"
| "truthy (Num n) = (n \<noteq> 0)"
| "truthy (Str s) = (s \<noteq> [])"
| "truthy _ = True"

fun is_str :: "jsval \<Rightarrow> bool" where
  "is_str (Str s) = True"
| "is_str _ = False"

text \<open>A parameter default \<open>x = d\<close>: taken when the argument is \<open>undefined\<close>.\<close>

definition dflt :: "jsval \<Rightarrow> jsval \<Rightarrow> jsval" where
  "dflt d v = (if v = Undefined then d else v)"

text \<open>\<open>a || b\<close>.\<close>

definition js_or :: "jsval \<Rightarrow> jsval \<Rightarrow> jsval" where
  "js_or a b = (if truthy a then a else b)"

text \<open>\<open>Map.has\<close>, \<open>Map.get\<close>, \<open>Map.set\<close>: a key that is set again keeps its place.\<close>

definition map_has :: "('k \<times> 'v) list \<Rightarrow> 'k \<Rightarrow> bool" where
  "map_has m k = (map_of m k \<noteq> None)"

definition map_get :: "('k \<times> jsval) list \<Rightarrow> 'k \<Rightarrow> jsval" where
  "map_get m k = (case map_of m k of None \<Rightarrow> Undefined | Some v \<Rightarrow> v)"

definition map_set :: "('k \<times> 'v) list \<Rightarrow> 'k \<Rightarrow> 'v \<Rightarrow> ('k \<times> 'v) list" where
  "map_set m k v = AList.update k v m"

definition keys :: "('k \<times> 'v) list \<Rightarrow> 'k set" where
  "keys m = fst ` set m"

text \<open>
  \<open>v.k\<close> for the fixed keys that the code reads by destructuring and in \<open>hasValue\<close>
  (\<open>length\<close>, \<open>pkg\<close>, \<open>cmd\<close>, \<open>data\<close>, \<open>builder\<close>, \<open>source\<close>, \<open>factorySettings\<close>,
  \<open>dependencies\<close>, \<open>packages\<close>, \<open>sources\<close>, \<open>name\<close>, \<open>build\<close>, \<open>method\<close>, \<open>factory\<close>), on the
  data these reads meet: parsed JSON, module namespaces, strings. None of these keys is
  a member of a standard prototype, so the read is the own property: a TypeError on
  \<open>undefined\<close> and \<open>null\<close>, the property of an object, the length of a string or array,
  \<open>undefined\<close> otherwise. The member read \<open>app[cmd]\<close> with a key chosen by the caller is
  \<open>get_member\<close> below.
\<close>

fun get_prop :: "jsval \<Rightarrow> string \<Rightarrow> error + jsval" where
  "get_prop Undefined k = Inl TypeError"
| "get_prop Null k = Inl TypeError"
| "get_prop (Obj fs) k = Inr (map_get fs k)"
| "get_prop (Str s) k = Inr (if k = ''length'' then Num (int (length s)) else Undefined)"
| "get_prop (Arr xs) k = Inr (if k = ''length'' then Num (int (length xs)) else Undefined)"
| "get_prop _ k = Inr Undefined"

text \<open>\<open>f(x)\<close>: a TypeError unless \<open>f\<close> is a function of the loaded code.\<close>

fun call_fn :: "world \<Rightarrow> jsval \<Rightarrow> jsval \<Rightarrow> error + jsval" where
  "call_fn w (Fn f) x = call w f x"
| "call_fn w _ x = Inl TypeError"

text \<open>String conversion, as string concatenation and template literals apply it.\<close>

fun js_str :: "world \<Rightarrow> jsval \<Rightarrow> string" where
  "js_str w (Str s) = s"
| "js_str w v = toString w v"

definition startsWith :: "string \<Rightarrow> string \<Rightarrow> bool" where
  "startsWith s p = (take (length p) s = p)"

subsection \<open>Module-level helpers\<close>

definition ROOT :: string where "ROOT = ''root''"

definition SOURCES :: string where "SOURCES = ''sources''"

definition PACKAGES :: string where "PACKAGES = ''packages''"

text \<open>\<open>isString\<close> and \<open>hasValue\<close> return the error they throw, if any.\<close>

definition isString :: "string \<Rightarrow> jsval \<Rightarrow> error option" where
  "isString property v = (if is_str v then None else Some (ValidationError property))"

definition hasValue :: "string \<Rightarrow> jsval \<Rightarrow> error option" where
  "hasValue property v =
     (case get_prop v ''length'' of
        Inl e \<Rightarrow> Some e
      | Inr l \<Rightarrow> if l = Num 0 then Some (ValidationError property) else None)"

text \<open>
  A destructuring \<open>const { a, b } = v\<close> throws a TypeError when \<open>v\<close> is \<open>undefined\<close> or
  \<open>null\<close> and reads the properties otherwise.
\<close>

definition destructurable :: "jsval \<Rightarrow> bool" where
  "destructurable v = (v \<noteq> Undefined \<and> v \<noteq> Null)"

definition field :: "jsval \<Rightarrow> string \<Rightarrow> jsval" where
  "field v k = (case get_prop v k of Inl e \<Rightarrow> Undefined | Inr x \<Rightarrow> x)"

section \<open>The class BlackMamba\<close>

subsection \<open>Construction and the getters\<close>

definition builtins :: "string list" where
  "builtins = [''getRootDirectory'', ''getSourcesDirectory'', ''getPackagesDirectory'',
     ''execute'', ''register'', ''hasNotModule'', ''getModule'']"

text \<open>
  The constructor. It fails by throwing, so its result is an error or the new instance.
  The property names passed to \<open>isString\<close> are spelled as in the source.
\<close>

definition constructor :: "config \<Rightarrow> error + state" where
  "constructor cfg =
    (let rootDirectory = (case cfg_rootDirectory cfg of None \<Rightarrow> '''' | Some d \<Rightarrow> d);
         sourcesDirectory = (case cfg_sourcesDirectory cfg of None \<Rightarrow> ''./sources'' | Some d \<Rightarrow> d);
         packagesDirectory = (case cfg_packagesDirectory cfg of None \<Rightarrow> ''./packages'' | Some d \<Rightarrow> d);
         s0 = \<lparr> modules = [], builders = [], packages = {}, sources = [], directories = [],
                defaultApp = cfg_defaultApp cfg, defaultCmd = cfg_defaultCmd cfg,
                defaultData = cfg_defaultData cfg, heap = [], trace = [] \<rparr>;
         s1 = s0 \<lparr> modules := foldl (\<lambda>m k. map_set m (Str k) (Native k)) (modules s0) builtins \<rparr>;
         dirs = (\<lambda>s. s \<lparr> directories :=
                   map_set (map_set (map_set (directories s) ROOT rootDirectory)
                      SOURCES sourcesDirectory) PACKAGES packagesDirectory \<rparr>)
     in if truthy (cfg_defaultApp cfg) then
          (case isString ''defaulApp'' (cfg_defaultApp cfg) of Some e \<Rightarrow> Inl e | None \<Rightarrow>
           case hasValue ''defaultApp'' (cfg_defaultApp cfg) of Some e \<Rightarrow> Inl e | None \<Rightarrow>
           case isString ''defaulCmd'' (cfg_defaultCmd cfg) of Some e \<Rightarrow> Inl e | None \<Rightarrow>
           case hasValue ''defaultCmd'' (cfg_defaultCmd cfg) of Some e \<Rightarrow> Inl e | None \<Rightarrow>
             Inr (dirs (s1 \<lparr> modules := map_set (modules s1) (Str ''executeWithFallback'')
                                          (Native ''executeWithFallback'') \<rparr>)))
        else Inr (dirs s1))"

text \<open>A directory that was never set reads as \<open>undefined\<close>, which concatenates as a word.\<close>

definition directory :: "state \<Rightarrow> string \<Rightarrow> string" where
  "directory s k = (case map_of (directories s) k of None \<Rightarrow> ''undefined'' | Some d \<Rightarrow> d)"

definition rootDirectory :: "state \<Rightarrow> string" where
  "rootDirectory s = directory s ROOT"

definition packagesDirectory :: "state \<Rightarrow> string" where
  "packagesDirectory s = directory s PACKAGES"

definition sourcesDirectory :: "state \<Rightarrow> string" where
  "sourcesDirectory s = directory s SOURCES"

definition hasNotModule :: "state \<Rightarrow> jsval \<Rightarrow> bool" where
  "hasNotModule s ident = (\<not> map_has (modules s) ident)"

definition getModule :: "state \<Rightarrow> jsval \<Rightarrow> jsval" where
  "getModule s ident = map_get (modules s) ident"

definition listModules :: "state \<Rightarrow> jsval list" where
  "listModules s = map fst (modules s)"

subsection \<open>The two loaders\<close>

text \<open>
  \<open>loadPackage\<close>. The path test \<open>path.startsWith("/")\<close> stands before the \<open>try\<close>, so on a
  path that is not a string it throws a TypeError that is not wrapped. (An object that
  carries a callable \<open>startsWith\<close> of its own is outside the model: identifiers are
  strings by the class's documentation.)
\<close>

definition loadPackage :: "world \<Rightarrow> state \<Rightarrow> jsval \<Rightarrow> jsval res" where
  "loadPackage w s path0 =
    (case dflt (Str '''') path0 of
       Str path \<Rightarrow>
         (let packagePath =
                (if startsWith path ''/''
                 then packagesDirectory s @ path @ ''.json''
                 else packagesDirectory s @ ''/'' @ path @ ''.json'');
              s1 = s \<lparr> trace := trace s @ [ConsoleLog (''loading package '' @ packagePath),
                                           LoadJson packagePath] \<rparr>
          in case loadJson w packagePath of
               Inr pkg \<Rightarrow> (Inr pkg, s1 \<lparr> packages := insert (Str path) (packages s1) \<rparr>)
             | Inl err \<Rightarrow> (Inl (PackageLoadError packagePath err), s1))
     | _ \<Rightarrow> (Inl TypeError, s))"

definition import :: "world \<Rightarrow> state \<Rightarrow> jsval \<Rightarrow> jsval res" where
  "import w s sourcePath =
    (if map_has (sources s) sourcePath then (Inr (map_get (sources s) sourcePath), s)
     else
       (let p = sourcesDirectory s @ js_str w sourcePath;
            s1 = s \<lparr> trace := trace s @ [DynImport p] \<rparr>
        in case dynImport w p of
             Inr source \<Rightarrow> (Inr source, s1 \<lparr> sources := map_set (sources s1) sourcePath source \<rparr>)
           | Inl err \<Rightarrow> (Inl (SourceImportError sourcePath err), s1)))"

subsection \<open>Builders\<close>

text \<open>
  \<open>createBuilder\<close> returns a new object closing over \<open>factory\<close> and two empty slots: a
  fresh address of the heap. \<open>inject\<close> and \<open>applySettings\<close> overwrite a slot in place;
  \<open>build\<close> runs \<open>factory(dependencies)(settings)\<close>. The three methods are only called
  on an address in range: \<open>registerBuilder\<close> passes the one just allocated, and
  \<open>applyAndBuild\<close> checks the range before it calls them.
\<close>

definition createBuilder :: "state \<Rightarrow> jsval \<Rightarrow> nat \<times> state" where
  "createBuilder s f =
     (length (heap s),
      s \<lparr> heap := heap s @ [\<lparr> factory = f, dependencies = Undefined, settings = Undefined \<rparr>] \<rparr>)"

definition inject :: "state \<Rightarrow> nat \<Rightarrow> jsval \<Rightarrow> state" where
  "inject s a factoryDependencies =
     s \<lparr> heap := (heap s)[a := (heap s ! a) \<lparr> dependencies := factoryDependencies \<rparr>] \<rparr>"

definition applySettings :: "state \<Rightarrow> nat \<Rightarrow> jsval \<Rightarrow> state" where
  "applySettings s a factorySettings =
     s \<lparr> heap := (heap s)[a := (heap s ! a) \<lparr> settings := factorySettings \<rparr>] \<rparr>"

definition build :: "world \<Rightarrow> state \<Rightarrow> nat \<Rightarrow> error + jsval" where
  "build w s a =
     (case call_fn w (factory (heap s ! a)) (dependencies (heap s ! a)) of
        Inl e \<Rightarrow> Inl e
      | Inr g \<Rightarrow> call_fn w g (settings (heap s ! a)))"

definition registerBuilder :: "state \<Rightarrow> jsval \<Rightarrow> jsval \<Rightarrow> jsval \<Rightarrow> jsval \<times> state" where
  "registerBuilder s ident f factoryDependencies =
     (case createBuilder s f of
        (a, s1) \<Rightarrow>
          (let s2 = inject s1 a factoryDependencies
           in (BuilderRef a, s2 \<lparr> builders := map_set (builders s2) ident (BuilderRef a) \<rparr>)))"

subsection \<open>Dependency resolution\<close>

text \<open>
  \<open>#parseDependencies(packageID, dependency)\<close> returns \<open>{ id, name, method, build }\<close>, here
  a tuple in that order. Reading \<open>dependency.pkg\<close> throws when \<open>dependency\<close> is
  \<open>undefined\<close> or \<open>null\<close>.
\<close>

definition parseDependencies ::
    "jsval \<Rightarrow> jsval \<Rightarrow> error + (jsval \<times> jsval \<times> jsval \<times> jsval)" where
  "parseDependencies packageID dependency =
    (if is_str dependency then Inr (dependency, dependency, Undefined, Undefined)
     else if \<not> destructurable dependency then Inl TypeError
     else
       (let ident = js_or (field dependency ''pkg'') (field dependency ''source'');
            name = field dependency ''name'';
            bld = js_or (field dependency ''build'') (Bool True);
            method = field dependency ''method''
        in if name = Undefined then Inl (DependencyNameError packageID ident)
           else Inr (ident, name, method, bld)))"

text \<open>
  The body of the loop over \<open>packages\<close>. The source calls \<open>#parseDependencies\<close> with one
  argument, which binds \<open>packageID\<close> and leaves \<open>dependency\<close> undefined; and it reads the
  table through the identifier \<open>modules\<close>, which is bound nowhere, so the assignment
  \<open>deps[name] = modules.get(id)\<close> throws a ReferenceError.
\<close>

definition packagesBody :: "registrar \<Rightarrow> state \<Rightarrow> jsval \<Rightarrow> jsval \<Rightarrow> jsval res option" where
  "packagesBody reg s pkg deps =
    (case parseDependencies pkg Undefined of
       Inl e \<Rightarrow> Some (Inl e, s)
     | Inr (ident, name, method, bld) \<Rightarrow>
         (case (if \<not> map_has (modules s) ident then reg s ident bld
                else Some (Inr Undefined, s)) of
            None \<Rightarrow> None
          | Some (Inl e, s1) \<Rightarrow> Some (Inl e, s1)
          | Some (Inr r, s1) \<Rightarrow> Some (Inl (ReferenceError ''modules''), s1)))"

fun packagesLoop :: "registrar \<Rightarrow> state \<Rightarrow> jsval list \<Rightarrow> jsval \<Rightarrow> jsval res option" where
  "packagesLoop reg s [] deps = Some (Inr deps, s)"
| "packagesLoop reg s (pkg # rest) deps =
    (case packagesBody reg s pkg deps of
       None \<Rightarrow> None
     | Some (Inl e, s1) \<Rightarrow> Some (Inl e, s1)
     | Some (Inr deps1, s1) \<Rightarrow> packagesLoop reg s1 rest deps1)"

text \<open>
  The body of the loop over \<open>sources\<close>: the same one-argument call, then the import, then
  \<open>name = name || method\<close>, an assignment to a \<open>const\<close> binding, which throws a TypeError.
\<close>

definition sourcesBody :: "world \<Rightarrow> state \<Rightarrow> jsval \<Rightarrow> jsval \<Rightarrow> jsval res" where
  "sourcesBody w s source deps =
    (case parseDependencies source Undefined of
       Inl e \<Rightarrow> (Inl e, s)
     | Inr (ident, name, method, bld) \<Rightarrow>
         (case import w s ident of
            (Inl e, s1) \<Rightarrow> (Inl e, s1)
          | (Inr m, s1) \<Rightarrow> (Inl TypeError, s1)))"

fun sourcesLoop :: "world \<Rightarrow> state \<Rightarrow> jsval list \<Rightarrow> jsval \<Rightarrow> jsval res" where
  "sourcesLoop w s [] deps = (Inr deps, s)"
| "sourcesLoop w s (source # rest) deps =
    (case sourcesBody w s source deps of
       (Inl e, s1) \<Rightarrow> (Inl e, s1)
     | (Inr deps1, s1) \<Rightarrow> sourcesLoop w s1 rest deps1)"

text \<open>
  \<open>#getDependencies({ packages = [], sources = [] } = {})\<close>. Each loop runs only over a
  non-empty array.
\<close>

definition getDependencies :: "registrar \<Rightarrow> world \<Rightarrow> state \<Rightarrow> jsval \<Rightarrow> jsval res option" where
  "getDependencies reg w s dependencies0 =
    (let deps_arg = dflt (Obj []) dependencies0
     in if \<not> destructurable deps_arg then Some (Inl TypeError, s)
        else
          (let pkgs = dflt (Arr []) (field deps_arg ''packages'');
               srcs = dflt (Arr []) (field deps_arg ''sources'');
               deps = Obj []
           in case (case pkgs of
                      Arr (p # ps) \<Rightarrow> packagesLoop reg s (p # ps) deps
                    | _ \<Rightarrow> Some (Inr deps, s)) of
                None \<Rightarrow> None
              | Some (Inl e, s1) \<Rightarrow> Some (Inl e, s1)
              | Some (Inr deps1, s1) \<Rightarrow>
                  Some (case srcs of
                          Arr (x # xs) \<Rightarrow> sourcesLoop w s1 (x # xs) deps1
                        | _ \<Rightarrow> (Inr deps1, s1))))"

subsection \<open>Registration\<close>

text \<open>
  \<open>register\<close>, \<open>#getDependencies\<close> and \<open>#createModuleFromBuilder\<close> call each other, and a
  descriptor that names itself as its builder makes them do so for ever. The recursion
  is bounded by fuel: \<open>register n\<close> may nest \<open>n\<close> registrations, and \<open>None\<close> means that it
  ran out. The two private methods take the registration they call back as the
  argument \<open>reg\<close>.
\<close>

text \<open>
  The second half of \<open>#createModuleFromBuilder\<close>: fetch the Builder stored under
  \<open>builderId\<close>, apply the settings, build, store the module under \<open>moduleID\<close> and
  return it. Calling \<open>applySettings\<close> on anything but a Builder throws a TypeError.
\<close>

definition applyAndBuild :: "world \<Rightarrow> state \<Rightarrow> jsval \<Rightarrow> jsval \<Rightarrow> jsval \<Rightarrow> jsval res" where
  "applyAndBuild w s moduleID builderId factorySettings =
    (case map_get (builders s) builderId of
       BuilderRef a \<Rightarrow>
         if a < length (heap s) then
           (let s2 = applySettings s a factorySettings
            in case build w s2 a of
                 Inl e \<Rightarrow> (Inl e, s2)
               | Inr m \<Rightarrow> (Inr m, s2 \<lparr> modules := map_set (modules s2) moduleID m \<rparr>))
         else (Inl TypeError, s)
     | _ \<Rightarrow> (Inl TypeError, s))"

definition createModuleFromBuilder ::
    "registrar \<Rightarrow> world \<Rightarrow> state \<Rightarrow> jsval \<Rightarrow> jsval \<Rightarrow> jsval \<Rightarrow> jsval res option" where
  "createModuleFromBuilder reg w s moduleID0 builderId0 factorySettings =
    (let moduleID = dflt (Str '''') moduleID0;
         builderId = dflt (Str '''') builderId0
     in case (if \<not> map_has (builders s) builderId then reg s builderId (Bool False)
              else Some (Inr Undefined, s)) of
          None \<Rightarrow> None
        | Some (Inl e, s1) \<Rightarrow> Some (Inl e, s1)
        | Some (Inr r, s1) \<Rightarrow> Some (applyAndBuild w s1 moduleID builderId factorySettings))"

primrec register :: "nat \<Rightarrow> world \<Rightarrow> state \<Rightarrow> jsval \<Rightarrow> jsval \<Rightarrow> jsval res option" where
  "register 0 w s id0 build0 = None"
| "register (Suc n) w s id0 build0 =
    (let ident = dflt (Str '''') id0;
         bld = dflt (Bool True) build0;
         moduleOrBuilder =
           (if truthy bld then map_get (modules s) ident else map_get (builders s) ident)
     in if ident \<in> packages s \<and> truthy moduleOrBuilder then Some (Inr moduleOrBuilder, s)
        else
          (case loadPackage w s ident of
             (Inl e, s1) \<Rightarrow> Some (Inl e, s1)
           | (Inr pkg, s1) \<Rightarrow>
               if \<not> destructurable pkg then Some (Inl TypeError, s1)
               else if truthy (field pkg ''source'') then
                 (case getDependencies (register n w) w s1 (field pkg ''dependencies'') of
                    None \<Rightarrow> None
                  | Some (Inl e, s2) \<Rightarrow> Some (Inl e, s2)
                  | Some (Inr deps, s2) \<Rightarrow>
                      (case import w s2 (field pkg ''source'') of
                         (Inl e, s3) \<Rightarrow> Some (Inl e, s3)
                       | (Inr src, s3) \<Rightarrow>
                           if \<not> destructurable src then Some (Inl TypeError, s3)
                           else
                             (case registerBuilder s3 ident (field src ''factory'') deps of
                                (Builder, s4) \<Rightarrow>
                                  if truthy bld
                                  then createModuleFromBuilder (register n w) w s4 ident ident
                                         (field pkg ''factorySettings'')
                                  else Some (Inr Builder, s4))))
               else if truthy (field pkg ''builder'') then
                 createModuleFromBuilder (register n w) w s1 ident (field pkg ''builder'')
                   (field pkg ''factorySettings'')
               else Some (Inl (DescriptorError ident), s1)))"

declare register.simps [simp del]

subsection \<open>Execution\<close>

text \<open>
  The member read \<open>app[cmd]\<close>. \<open>own_member\<close> is what the representation of a value
  shows; every other property, down the prototype chain, is the world's \<open>inherited\<close>.
\<close>

fun own_member :: "jsval \<Rightarrow> string \<Rightarrow> jsval option" where
  "own_member (Obj fs) k = map_of fs k"
| "own_member (Str s) k = (if k = ''length'' then Some (Num (int (length s))) else None)"
| "own_member (Arr xs) k = (if k = ''length'' then Some (Num (int (length xs))) else None)"
| "own_member _ k = None"

definition get_member :: "world \<Rightarrow> jsval \<Rightarrow> string \<Rightarrow> jsval" where
  "get_member w v k = (case own_member v k of Some x \<Rightarrow> x | None \<Rightarrow> inherited w v k)"

text \<open>
  The instance's own functions, by the name under which the constructor enters them in
  the module table: \<open>natives k s args\<close> runs the function \<open>k\<close> on the argument list.
\<close>

type_synonym natives = "string \<Rightarrow> state \<Rightarrow> jsval list \<Rightarrow> jsval res option"

type_synonym executor = "state \<Rightarrow> jsval \<Rightarrow> jsval \<Rightarrow> jsval \<Rightarrow> jsval res option"

text \<open>
  The call \<open>f.call(app, d)\<close> of a member \<open>f\<close> that has been read: a function of the
  loaded code is run by the world with \<open>app\<close> as its receiver, a function of the
  instance runs on the instance (it is bound, the receiver plays no part), anything
  else is not callable.
\<close>

definition call_member ::
    "natives \<Rightarrow> world \<Rightarrow> state \<Rightarrow> jsval \<Rightarrow> jsval \<Rightarrow> jsval \<Rightarrow> jsval res option" where
  "call_member nats w s f app d =
    (case f of
       Fn g \<Rightarrow> Some (invoke w g app d, s)
     | Native k \<Rightarrow> nats k s [d]
     | _ \<Rightarrow> Some (Inl TypeError, s))"

text \<open>
  \<open>app[cmd](data)\<close>. Reading a member of \<open>undefined\<close> or \<open>null\<close> throws. On a function of
  the instance, \<open>call\<close> and \<open>apply\<close> are those of \<open>Function.prototype\<close>: with the one
  argument \<open>data\<close> they run the function with receiver \<open>data\<close> and no arguments. On a
  Builder, \<open>inject\<close>, \<open>applySettings\<close> and \<open>build\<close> are the three methods that
  \<open>createBuilder\<close> gives it. Every other member is read with \<open>get_member\<close> and called.
\<close>

definition member_call ::
    "natives \<Rightarrow> world \<Rightarrow> state \<Rightarrow> jsval \<Rightarrow> string \<Rightarrow> jsval \<Rightarrow> jsval res option" where
  "member_call nats w s app cmd d =
    (case app of
       Undefined \<Rightarrow> Some (Inl TypeError, s)
     | Null \<Rightarrow> Some (Inl TypeError, s)
     | Native k \<Rightarrow>
         if cmd = ''call'' \<or> cmd = ''apply'' then nats k s []
         else call_member nats w s (get_member w app cmd) app d
     | BuilderRef a \<Rightarrow>
         if a < length (heap s) \<and> cmd = ''inject'' then Some (Inr app, inject s a d)
         else if a < length (heap s) \<and> cmd = ''applySettings''
           then Some (Inr app, applySettings s a d)
         else if a < length (heap s) \<and> cmd = ''build'' then Some (build w s a, s)
         else call_member nats w s (get_member w app cmd) app d
     | _ \<Rightarrow> call_member nats w s (get_member w app cmd) app d)"

text \<open>
  The body of \<open>execute\<close>, with the registration and the instance's functions that it may
  call as arguments.
\<close>

definition executeBody ::
    "natives \<Rightarrow> registrar \<Rightarrow> world \<Rightarrow> state \<Rightarrow> jsval \<Rightarrow> jsval \<Rightarrow> jsval \<Rightarrow> jsval res option" where
  "executeBody nats reg w s nextApp0 cmd0 d =
    (let nextApp = dflt (Str '''') nextApp0;
         cmd = dflt (Str '''') cmd0
     in case isString ''nextApp'' nextApp of Some e \<Rightarrow> Some (Inl e, s) | None \<Rightarrow>
        case hasValue ''nextApp'' nextApp of Some e \<Rightarrow> Some (Inl e, s) | None \<Rightarrow>
        case isString ''cmd'' cmd of Some e \<Rightarrow> Some (Inl e, s) | None \<Rightarrow>
        case hasValue ''cmd'' cmd of Some e \<Rightarrow> Some (Inl e, s) | None \<Rightarrow>
        (case (if \<not> map_has (modules s) nextApp then reg s nextApp Undefined
               else Some (Inr Undefined, s)) of
           None \<Rightarrow> None
         | Some (Inl e, s1) \<Rightarrow> Some (Inl e, s1)
         | Some (Inr r, s1) \<Rightarrow>
             (let app = map_get (modules s1) nextApp
              in member_call nats w s1 app (js_str w cmd) d)))"

definition fallbackMessage :: "world \<Rightarrow> jsval \<Rightarrow> jsval \<Rightarrow> string" where
  "fallbackMessage w nextApp dApp =
     ''App '' @ [CHR 0x22] @ js_str w nextApp @ [CHR 0x22] @ '' not found, using as fallback ''
       @ [CHR 0x22] @ js_str w dApp @ [CHR 0x22] @ '' instead''"

text \<open>The body of \<open>executeWithFallback\<close>, with the registration and \<open>execute\<close> as arguments.\<close>

definition executeWithFallbackBody ::
    "registrar \<Rightarrow> executor \<Rightarrow> world \<Rightarrow> state \<Rightarrow> jsval \<Rightarrow> jsval \<Rightarrow> jsval \<Rightarrow> jsval res option" where
  "executeWithFallbackBody reg exe w s nextApp0 cmd0 d =
    (let nextApp = dflt (Str '''') nextApp0;
         cmd = dflt (Str '''') cmd0
     in if \<not> map_has (modules s) nextApp then
          (case reg s nextApp Undefined of
             None \<Rightarrow> None
           | Some (Inr r, s1) \<Rightarrow> exe s1 nextApp cmd d
           | Some (Inl err, s1) \<Rightarrow>
               (let s2 = s1 \<lparr> trace := trace s1 @
                                [ConsoleLog (fallbackMessage w nextApp (defaultApp s1))] \<rparr>
                in exe s2 (defaultApp s2) (defaultCmd s2) (defaultData s2)))
        else exe s nextApp cmd d)"

text \<open>
  The functions that the constructor enters in the module table, run on an argument
  list: the three directory getters, and \<open>execute\<close>, \<open>register\<close>, \<open>hasNotModule\<close>,
  \<open>getModule\<close> and \<open>executeWithFallback\<close> bound to the instance. A parameter that the
  list does not reach is \<open>undefined\<close>. The getters return the parameters of the
  constructor, which are what the constructor stores in the directory table, and no
  operation writes to that table afterwards. The constructor makes no function under
  any other name; calling one is a TypeError here.
\<close>

definition arg :: "jsval list \<Rightarrow> nat \<Rightarrow> jsval" where
  "arg args i = (if i < length args then args ! i else Undefined)"

definition nativeBody ::
    "registrar \<Rightarrow> executor \<Rightarrow> executor \<Rightarrow> string \<Rightarrow> state \<Rightarrow> jsval list \<Rightarrow> jsval res option" where
  "nativeBody reg exe exf k s args =
    (if k = ''getRootDirectory'' then Some (Inr (Str (rootDirectory s)), s)
     else if k = ''getSourcesDirectory'' then Some (Inr (Str (sourcesDirectory s)), s)
     else if k = ''getPackagesDirectory'' then Some (Inr (Str (packagesDirectory s)), s)
     else if k = ''execute'' then exe s (arg args 0) (arg args 1) (arg args 2)
     else if k = ''register'' then reg s (arg args 0) (arg args 1)
     else if k = ''hasNotModule'' then Some (Inr (Bool (hasNotModule s (arg args 0))), s)
     else if k = ''getModule'' then Some (Inr (getModule s (arg args 0)), s)
     else if k = ''executeWithFallback'' then exf s (arg args 0) (arg args 1) (arg args 2)
     else Some (Inl TypeError, s))"

text \<open>
  \<open>execute\<close> can reach a function of the instance (\<open>execute("execute", "call")\<close>), which
  can be \<open>execute\<close> again: the recursion is bounded by the same fuel. \<open>native n\<close> runs the
  instance's functions with \<open>n\<close> nested calls left; \<open>execute n\<close> and
  \<open>executeWithFallback n\<close> are the two methods with \<open>register n\<close> and \<open>native n\<close> to call.
\<close>

primrec native :: "nat \<Rightarrow> world \<Rightarrow> natives" where
  "native 0 w = (\<lambda>k s args. None)"
| "native (Suc n) w =
     nativeBody (register n w) (executeBody (native n w) (register n w) w)
       (executeWithFallbackBody (register n w) (executeBody (native n w) (register n w) w) w)"

declare native.simps [simp del]

definition execute ::
    "nat \<Rightarrow> world \<Rightarrow> state \<Rightarrow> jsval \<Rightarrow> jsval \<Rightarrow> jsval \<Rightarrow> jsval res option" where
  "execute n w s nextApp cmd d = executeBody (native n w) (register n w) w s nextApp cmd d"

definition executeWithFallback ::
    "nat \<Rightarrow> world \<Rightarrow> state \<Rightarrow> jsval \<Rightarrow> jsval \<Rightarrow> jsval \<Rightarrow> jsval res option" where
  "executeWithFallback n w s nextApp cmd d =
     executeWithFallbackBody (register n w) (execute n w) w s nextApp cmd d"

text \<open>
  \<open>run(packages = [])\<close>: one \<open>execute\<close> per entry, each awaited before the next. A value
  that cannot be iterated throws a TypeError; a string iterates over its characters.
\<close>

definition runEntry :: "nat \<Rightarrow> world \<Rightarrow> state \<Rightarrow> jsval \<Rightarrow> jsval res option" where
  "runEntry n w s entry =
    (if \<not> destructurable entry then Some (Inl TypeError, s)
     else execute n w s (field entry ''pkg'') (field entry ''cmd'') (field entry ''data''))"

fun runLoop :: "nat \<Rightarrow> world \<Rightarrow> state \<Rightarrow> jsval list \<Rightarrow> jsval res option" where
  "runLoop n w s [] = Some (Inr Undefined, s)"
| "runLoop n w s (entry # rest) =
    (case runEntry n w s entry of
       None \<Rightarrow> None
     | Some (Inl e, s1) \<Rightarrow> Some (Inl e, s1)
     | Some (Inr r, s1) \<Rightarrow> runLoop n w s1 rest)"

definition run :: "nat \<Rightarrow> world \<Rightarrow> state \<Rightarrow> jsval \<Rightarrow> jsval res option" where
  "run n w s packages0 =
    (case dflt (Arr []) packages0 of
       Arr entries \<Rightarrow> runLoop n w s entries
     | Str cs \<Rightarrow> runLoop n w s (map (\<lambda>c. Str [c]) cs)
     | _ \<Rightarrow> Some (Inl TypeError, s))"

section \<open>Notions used in the statements\<close>

text \<open>The resolved paths handed to the JSON loader so far, oldest first.\<close>

fun loads :: "event list \<Rightarrow> string list" where
  "loads [] = []"
| "loads (LoadJson p # es) = p # loads es"
| "loads (e # es) = loads es"

text \<open>A non-empty string, the condition that \<open>isString\<close> and \<open>hasValue\<close> check together.\<close>

fun nonempty_string :: "jsval \<Rightarrow> bool" where
  "nonempty_string (Str s) = (s \<noteq> [])"
| "nonempty_string _ = False"

text \<open>The first test of \<open>register\<close>: does a cached module or builder answer the call?\<close>

definition cached :: "state \<Rightarrow> jsval \<Rightarrow> jsval \<Rightarrow> bool" where
  "cached s ident bld =
     (ident \<in> packages s
      \<and> truthy (if truthy bld then map_get (modules s) ident else map_get (builders s) ident))"

text \<open>
  No operation removes a key or touches the configuration: from one state to a later
  one the set of loaded packages and the key sets of the module and builder tables can
  only grow, and the directories and the default triple stay as they are.
\<close>

definition grows :: "state \<Rightarrow> state \<Rightarrow> bool" where
  "grows s s' =
    (packages s \<subseteq> packages s' \<and> keys (modules s) \<subseteq> keys (modules s')
     \<and> keys (builders s) \<subseteq> keys (builders s')
     \<and> directories s' = directories s \<and> defaultApp s' = defaultApp s
     \<and> defaultCmd s' = defaultCmd s \<and> defaultData s' = defaultData s)"

definition reg_grows :: "registrar \<Rightarrow> bool" where
  "reg_grows reg = (\<forall>s i b r s'. reg s i b = Some (r, s') \<longrightarrow> grows s s')"



text \<open>
  The members that \<open>member_call\<close> resolves on the instance rather than through the
  world: \<open>call\<close> and \<open>apply\<close> of one of the instance's functions, and the three methods
  of a Builder of the heap.
\<close>

definition instance_member :: "state \<Rightarrow> jsval \<Rightarrow> string \<Rightarrow> bool" where
  "instance_member s app k =
    (case app of
       Native j \<Rightarrow> k = ''call'' \<or> k = ''apply''
     | BuilderRef a \<Rightarrow>
         a < length (heap s) \<and> (k = ''inject'' \<or> k = ''applySettings'' \<or> k = ''build'')
     | _ \<Rightarrow> False)"

section \<open>A concrete installation\<close>

text \<open>
  A world for evaluating the operations. \<open>greeter\<close> is the package of the repository's
  tests, with the factory of its source file: the module has one command, \<open>greet\<close>. The
  others are made up in the same shape: \<open>builder\<close> (a source whose module carries the
  message of its settings), \<open>hello\<close> (built from the Builder of \<open>builder\<close>), \<open>app\<close> (a
  source that depends on the package \<open>greeter\<close>), \<open>tool\<close> (a source that depends on the
  plain source \<open>/util.js\<close>), \<open>zero\<close> (a source whose factory yields the number 0 as
  its module) and \<open>test\<close> (a source whose module is a function, as the test
  \<open>module() === "I a module"\<close> of the repository expects it). Every other path fails to
  load.
\<close>

definition demo_loadJson :: "string \<Rightarrow> error + jsval" where
  "demo_loadJson p =
    (if p = ''./packages/greeter.json'' then
       Inr (Obj [(''name'', Str ''greeter''), (''source'', Str ''/greeter.js'')])
     else if p = ''./packages/builder.json'' then
       Inr (Obj [(''name'', Str ''builder''), (''source'', Str ''/builder.js'')])
     else if p = ''./packages/hello.json'' then
       Inr (Obj [(''name'', Str ''hello''), (''builder'', Str ''builder''),
                 (''factorySettings'', Obj [(''message'', Str ''hi'')])])
     else if p = ''./packages/app.json'' then
       Inr (Obj [(''name'', Str ''app''), (''source'', Str ''/greeter.js''),
                 (''dependencies'', Obj [(''packages'', Arr [Str ''greeter''])])])
     else if p = ''./packages/tool.json'' then
       Inr (Obj [(''name'', Str ''tool''), (''source'', Str ''/greeter.js''),
                 (''dependencies'',
                    Obj [(''sources'', Arr [Obj [(''source'', Str ''/util.js''),
                                                 (''name'', Str ''util'')]])])])
     else if p = ''./packages/zero.json'' then
       Inr (Obj [(''name'', Str ''zero''), (''source'', Str ''/zero.js'')])
     else if p = ''./packages/test.json'' then
       Inr (Obj [(''name'', Str ''test''), (''source'', Str ''/test.js'')])
     else Inl (Thrown (Str ''NotFound'')))"

definition demo_dynImport :: "string \<Rightarrow> error + jsval" where
  "demo_dynImport p =
    (if p = ''./sources/greeter.js'' then Inr (Obj [(''factory'', Fn ''greeter.factory'')])
     else if p = ''./sources/builder.js'' then Inr (Obj [(''factory'', Fn ''builder.factory'')])
     else if p = ''./sources/util.js'' then Inr (Obj [(''default'', Fn ''util'')])
     else if p = ''./sources/zero.js'' then Inr (Obj [(''factory'', Fn ''zero.factory'')])
     else if p = ''./sources/test.js'' then Inr (Obj [(''factory'', Fn ''test.factory'')])
     else Inl (Thrown (Str ''NotFound'')))"

text \<open>
  \<open>String(v)\<close>, as template literals and string concatenation apply it. A function is
  rendered as the text of its source: that of the instance's functions is known (three
  arrow functions and five bound ones), that of the loaded code is not part of this
  world and stands as the function's name.
\<close>

definition digit :: "nat \<Rightarrow> char" where
  "digit n = ''0123456789'' ! (n mod 10)"

fun decimal :: "nat \<Rightarrow> string" where
  "decimal n = (if n < 10 then [digit n] else decimal (n div 10) @ [digit n])"

declare decimal.simps [simp del]

fun join :: "string list \<Rightarrow> string" where
  "join [] = []"
| "join [x] = x"
| "join (x # y # ys) = x @ '','' @ join (y # ys)"

fun demo_toString :: "jsval \<Rightarrow> string" where
  "demo_toString Undefined = ''undefined''"
| "demo_toString Null = ''null''"
| "demo_toString (Bool b) = (if b then ''true'' else ''false'')"
| "demo_toString (Num i) = (if i < 0 then ''-'' @ decimal (nat (- i)) else decimal (nat i))"
| "demo_toString (Str s) = s"
| "demo_toString (Arr xs) =
     join (map (\<lambda>x. if x = Undefined \<or> x = Null then [] else demo_toString x) xs)"
| "demo_toString (Obj fs) = ''[object Object]''"
| "demo_toString (Fn g) = ''function '' @ g"
| "demo_toString (Native k) =
     (if k = ''getRootDirectory'' then ''() => rootDirectory''
      else if k = ''getSourcesDirectory'' then ''() => sourcesDirectory''
      else if k = ''getPackagesDirectory'' then ''() => packagesDirectory''
      else ''function () { [native code] }'')"
| "demo_toString (BuilderRef a) = ''[object Object]''"

text \<open>
  The functions of the loaded code, called as plain functions. \<open>greet\<close> is the one of the
  repository, \<open>greet ( name ) { return `Hello ${name}`; }\<close>.
\<close>

definition demo_call :: "string \<Rightarrow> jsval \<Rightarrow> error + jsval" where
  "demo_call f x =
    (if f = ''greeter.factory'' then Inr (Fn ''greeter.module'')
     else if f = ''greeter.module'' then Inr (Obj [(''greet'', Fn ''greet'')])
     else if f = ''greet'' then Inr (Str (''Hello '' @ demo_toString x))
     else if f = ''builder.factory'' then Inr (Fn ''builder.module'')
     else if f = ''builder.module'' then
       Inr (Obj [(''message'', field x ''message''), (''greet'', Fn ''greet'')])
     else if f = ''zero.factory'' then Inr (Fn ''zero.factory.settings'')
     else if f = ''zero.factory.settings'' then Inr (Num 0)
     else if f = ''test.factory'' then Inr (Fn ''test.factory.settings'')
     else if f = ''test.factory.settings'' then Inr (Fn ''test.module'')
     else if f = ''test.module'' then Inr (Str ''I a module'')
     else Inl (Thrown (Str ''unknown function'')))"

text \<open>
  What the values of this world inherit. Of the standard prototypes it has \<open>toString\<close>
  for objects and \<open>call\<close>, \<open>apply\<close>, \<open>bind\<close> and \<open>toString\<close> for functions, the members
  that the evaluations below read; an engine has more.
\<close>

definition demo_inherited :: "jsval \<Rightarrow> string \<Rightarrow> jsval" where
  "demo_inherited v k =
    (let of_object = (if k = ''toString'' then Fn ''Object.prototype.toString'' else Undefined);
         of_function = (if k = ''call'' then Fn ''Function.prototype.call''
                     else if k = ''apply'' then Fn ''Function.prototype.apply''
                     else if k = ''bind'' then Fn ''Function.prototype.bind''
                     else if k = ''toString'' then Fn ''Function.prototype.toString''
                     else Undefined)
     in case v of
          Obj fs \<Rightarrow> of_object
        | BuilderRef a \<Rightarrow> of_object
        | Fn g \<Rightarrow> of_function
        | Native j \<Rightarrow> of_function
        | _ \<Rightarrow> Undefined)"

text \<open>
  A function called as a member, \<open>f.call(this, x)\<close>. \<open>Object.prototype.toString\<close> names
  the class of its receiver. \<open>call\<close> and \<open>apply\<close> with the one argument \<open>x\<close> run their
  receiver with no arguments (on a function of the instance they never get here:
  \<open>member_call\<close> runs it), \<open>bind\<close> yields a function that does as its receiver does,
  \<open>Function.prototype.toString\<close> the text of its receiver. The functions of the loaded
  code do not read their receiver.
\<close>

definition demo_invoke :: "string \<Rightarrow> jsval \<Rightarrow> jsval \<Rightarrow> error + jsval" where
  "demo_invoke f this x =
    (if f = ''Object.prototype.toString'' then
       Inr (Str (case this of
                   Undefined \<Rightarrow> ''[object Undefined]''
                 | Null \<Rightarrow> ''[object Null]''
                 | Bool b \<Rightarrow> ''[object Boolean]''
                 | Num i \<Rightarrow> ''[object Number]''
                 | Str s \<Rightarrow> ''[object String]''
                 | Arr xs \<Rightarrow> ''[object Array]''
                 | Obj fs \<Rightarrow> ''[object Object]''
                 | Fn g \<Rightarrow> ''[object Function]''
                 | Native k \<Rightarrow> ''[object Function]''
                 | BuilderRef a \<Rightarrow> ''[object Object]''))
     else if f = ''Function.prototype.call'' \<or> f = ''Function.prototype.apply'' then
       (case this of Fn g \<Rightarrow> demo_call g Undefined | _ \<Rightarrow> Inl TypeError)
     else if f = ''Function.prototype.bind'' then
       (case this of Fn g \<Rightarrow> Inr this | Native k \<Rightarrow> Inr this | _ \<Rightarrow> Inl TypeError)
     else if f = ''Function.prototype.toString'' then
       (case this of Fn g \<Rightarrow> Inr (Str (demo_toString this))
        | Native k \<Rightarrow> Inr (Str (demo_toString this)) | _ \<Rightarrow> Inl TypeError)
     else demo_call f x)"

definition demo :: world where
  "demo = \<lparr> loadJson = demo_loadJson, dynImport = demo_dynImport, call = demo_call,
            invoke = demo_invoke, inherited = demo_inherited, toString = demo_toString \<rparr>"

definition no_config :: config where
  "no_config = \<lparr> cfg_rootDirectory = None, cfg_sourcesDirectory = None,
                 cfg_packagesDirectory = None, cfg_defaultApp = Undefined,
                 cfg_defaultCmd = Undefined, cfg_defaultData = Undefined \<rparr>"

definition fallback_config :: config where
  "fallback_config = no_config \<lparr> cfg_defaultApp := Str ''greeter'',
     cfg_defaultCmd := Str ''greet'', cfg_defaultData := Str ''Nobody'' \<rparr>"

text \<open>The instance that \<open>new BlackMamba()\<close> yields, written out.\<close>

definition fresh :: state where
  "fresh = \<lparr> modules = map (\<lambda>k. (Str k, Native k)) builtins, builders = [], packages = {},
             sources = [],
             directories = [(ROOT, ''''), (SOURCES, ''./sources''), (PACKAGES, ''./packages'')],
             defaultApp = Undefined, defaultCmd = Undefined, defaultData = Undefined,
             heap = [], trace = [] \<rparr>"

text \<open>The fresh instance after \<open>greeter\<close> has been registered and built.\<close>

definition greeted :: state where
  "greeted = fresh \<lparr>
      modules := modules fresh @ [(Str ''greeter'', Obj [(''greet'', Fn ''greet'')])],
      builders := [(Str ''greeter'', BuilderRef 0)],
      packages := {Str ''greeter''},
      sources := [(Str ''/greeter.js'', Obj [(''factory'', Fn ''greeter.factory'')])],
      heap := [\<lparr> factory = Fn ''greeter.factory'', dependencies = Obj [],
                 settings = Undefined \<rparr>],
      trace := [ConsoleLog ''loading package ./packages/greeter.json'',
                LoadJson ''./packages/greeter.json'', DynImport ''./sources/greeter.js''] \<rparr>"

text \<open>The instance configured with the default triple of the tests, and the state a failed
  registration of the missing package \<open>shouter\<close> leaves.\<close>

definition fallback_fresh :: state where
  "fallback_fresh = fresh \<lparr>
      modules := modules fresh @ [(Str ''executeWithFallback'', Native ''executeWithFallback'')],
      defaultApp := Str ''greeter'', defaultCmd := Str ''greet'',
      defaultData := Str ''Nobody'' \<rparr>"

definition shouter_failed :: state where
  "shouter_failed = fallback_fresh \<lparr>
      trace := [ConsoleLog ''loading package ./packages/shouter.json'',
                LoadJson ''./packages/shouter.json''] \<rparr>"

text \<open>An entry of a batch, and \<open>greeted\<close> after a failed registration of \<open>shouter\<close>.\<close>

definition entry :: "string \<Rightarrow> string \<Rightarrow> string \<Rightarrow> jsval" where
  "entry p c d = Obj [(''pkg'', Str p), (''cmd'', Str c), (''data'', Str d)]"

definition greeted_shouter_failed :: state where
  "greeted_shouter_failed = greeted \<lparr>
      trace := trace greeted @ [ConsoleLog ''loading package ./packages/shouter.json'',
                                LoadJson ''./packages/shouter.json''] \<rparr>"

text \<open>The states that registering \<open>hello\<close> on a fresh instance goes through.\<close>

definition hello_descriptor :: jsval where
  "hello_descriptor = Obj [(''name'', Str ''hello''), (''builder'', Str ''builder''),
     (''factorySettings'', Obj [(''message'', Str ''hi'')])]"

definition hello_module :: jsval where
  "hello_module = Obj [(''message'', Str ''hi''), (''greet'', Fn ''greet'')]"

definition hello_loaded :: state where
  "hello_loaded = fresh \<lparr> packages := {Str ''hello''},
      trace := [ConsoleLog ''loading package ./packages/hello.json'',
                LoadJson ''./packages/hello.json''] \<rparr>"

definition builder_ready :: state where
  "builder_ready = hello_loaded \<lparr>
      builders := [(Str ''builder'', BuilderRef 0)],
      packages := {Str ''builder'', Str ''hello''},
      sources := [(Str ''/builder.js'', Obj [(''factory'', Fn ''builder.factory'')])],
      heap := [\<lparr> factory = Fn ''builder.factory'', dependencies = Obj [],
                 settings = Undefined \<rparr>],
      trace := trace hello_loaded @
               [ConsoleLog ''loading package ./packages/builder.json'',
                LoadJson ''./packages/builder.json'', DynImport ''./sources/builder.js''] \<rparr>"

definition helloed :: state where
  "helloed = builder_ready \<lparr>
      modules := modules fresh @ [(Str ''hello'', hello_module)],
      heap := [\<lparr> factory = Fn ''builder.factory'', dependencies = Obj [],
                 settings = Obj [(''message'', Str ''hi'')] \<rparr>] \<rparr>"

text \<open>The descriptor of \<open>builder\<close> and the state that loading it leaves.\<close>

definition builder_descriptor :: jsval where
  "builder_descriptor = Obj [(''name'', Str ''builder''), (''source'', Str ''/builder.js'')]"

definition builder_loaded :: state where
  "builder_loaded = hello_loaded \<lparr>
      packages := {Str ''builder'', Str ''hello''},
      trace := trace hello_loaded @
               [ConsoleLog ''loading package ./packages/builder.json'',
                LoadJson ''./packages/builder.json''] \<rparr>"

text \<open>The descriptors of \<open>app\<close> and \<open>tool\<close> and the states that loading them leaves.\<close>

definition app_descriptor :: jsval where
  "app_descriptor = Obj [(''name'', Str ''app''), (''source'', Str ''/greeter.js''),
     (''dependencies'', Obj [(''packages'', Arr [Str ''greeter''])])]"

definition app_loaded :: state where
  "app_loaded = fresh \<lparr> packages := {Str ''app''},
      trace := [ConsoleLog ''loading package ./packages/app.json'',
                LoadJson ''./packages/app.json''] \<rparr>"

definition tool_descriptor :: jsval where
  "tool_descriptor = Obj [(''name'', Str ''tool''), (''source'', Str ''/greeter.js''),
     (''dependencies'',
        Obj [(''sources'', Arr [Obj [(''source'', Str ''/util.js''), (''name'', Str ''util'')]])])]"

definition tool_loaded :: state where
  "tool_loaded = fresh \<lparr> packages := {Str ''tool''},
      trace := [ConsoleLog ''loading package ./packages/tool.json'',
                LoadJson ''./packages/tool.json''] \<rparr>"

text \<open>The fresh instance after \<open>test\<close> has been registered and built.\<close>

definition tested :: state where
  "tested = fresh \<lparr>
      modules := modules fresh @ [(Str ''test'', Fn ''test.module'')],
      builders := [(Str ''test'', BuilderRef 0)],
      packages := {Str ''test''},
      sources := [(Str ''/test.js'', Obj [(''factory'', Fn ''test.factory'')])],
      heap := [\<lparr> factory = Fn ''test.factory'', dependencies = Obj [], settings = Undefined \<rparr>],
      trace := [ConsoleLog ''loading package ./packages/test.json'',
                LoadJson ''./packages/test.json'', DynImport ''./sources/test.js''] \<rparr>"

text \<open>The fresh instance after \<open>zero\<close> has been registered and built.\<close>

definition zero_built :: state where
  "zero_built = fresh \<lparr>
      modules := modules fresh @ [(Str ''zero'', Num 0)],
      builders := [(Str ''zero'', BuilderRef 0)],
      packages := {Str ''zero''},
      sources := [(Str ''/zero.js'', Obj [(''factory'', Fn ''zero.factory'')])],
      heap := [\<lparr> factory = Fn ''zero.factory'', dependencies = Obj [], settings = Undefined \<rparr>],
      trace := [ConsoleLog ''loading package ./packages/zero.json'',
                LoadJson ''./packages/zero.json'', DynImport ''./sources/zero.js''] \<rparr>"

section \<open>Evaluating the concrete installation\<close>

lemmas model_defs =
  dflt_def js_or_def map_has_def map_get_def map_set_def startsWith_def isString_def hasValue_def
  destructurable_def field_def directory_def rootDirectory_def packagesDirectory_def
  sourcesDirectory_def ROOT_def SOURCES_def PACKAGES_def loadPackage_def import_def
  createBuilder_def inject_def applySettings_def build_def registerBuilder_def
  parseDependencies_def packagesBody_def sourcesBody_def getDependencies_def applyAndBuild_def
  createModuleFromBuilder_def get_member_def call_member_def member_call_def executeBody_def
  executeWithFallbackBody_def execute_def executeWithFallback_def runEntry_def
  run_def fallbackMessage_def hasNotModule_def getModule_def listModules_def builtins_def Let_def
  register.simps

lemmas demo_defs = demo_def demo_loadJson_def demo_dynImport_def demo_call_def demo_invoke_def
  demo_inherited_def fresh_def

lemmas hello_defs = hello_descriptor_def hello_module_def hello_loaded_def builder_ready_def
  helloed_def

section \<open>Basic facts\<close>

lemma loads_append: "loads (xs @ ys) = loads xs @ loads ys"
  by (induction xs rule: loads.induct) simp_all

lemma validate_nonempty_string:
  "(isString p v = None \<and> hasValue q v = None) = nonempty_string v"
  by (cases v) (simp_all add: isString_def hasValue_def)

lemma isString_error: "isString p v = Some e \<Longrightarrow> e = ValidationError p"
  by (simp add: isString_def split: if_splits)

lemma hasValue_error: "is_str v \<Longrightarrow> hasValue p v = Some e \<Longrightarrow> e = ValidationError p"
  by (cases v) (simp_all add: hasValue_def split: if_splits)

section \<open>Resolution of package paths\<close>

text \<open>
  Claim C8. For every string \<open>path\<close>, \<open>loadPackage(path)\<close> hands the JSON loader the
  location \<open>packagesDirectory + path + ".json"\<close> when \<open>path\<close> starts with a slash and
  \<open>packagesDirectory + "/" + path + ".json"\<close> otherwise, and its outcome is the loader's
  at that location (a failure wrapped with the location). In particular
  \<open>loadPackage("test")\<close> reads \<open>test.json\<close> and \<open>loadPackage("/subfolder/test")\<close> reads
  \<open>subfolder/test.json\<close>, both under the packages directory.
\<close>

theorem loadPackage_resolution:
  "trace (snd (loadPackage w s (Str path))) =
     trace s @ [ConsoleLog (''loading package '' @
                  (if startsWith path ''/'' then packagesDirectory s @ path @ ''.json''
                   else packagesDirectory s @ ''/'' @ path @ ''.json'')),
                LoadJson (if startsWith path ''/'' then packagesDirectory s @ path @ ''.json''
                          else packagesDirectory s @ ''/'' @ path @ ''.json'')]
   \<and> fst (loadPackage w s (Str path)) =
       (case loadJson w (if startsWith path ''/'' then packagesDirectory s @ path @ ''.json''
                         else packagesDirectory s @ ''/'' @ path @ ''.json'') of
          Inr pkg \<Rightarrow> Inr pkg
        | Inl err \<Rightarrow> Inl (PackageLoadError
             (if startsWith path ''/'' then packagesDirectory s @ path @ ''.json''
              else packagesDirectory s @ ''/'' @ path @ ''.json'') err))
   \<and> loads (trace (snd (loadPackage w s (Str ''test'')))) =
       loads (trace s) @ [packagesDirectory s @ ''/test.json'']
   \<and> loads (trace (snd (loadPackage w s (Str ''/subfolder/test'')))) =
       loads (trace s) @ [packagesDirectory s @ ''/subfolder/test.json'']"
  by (simp add: loadPackage_def dflt_def Let_def startsWith_def loads_append split: sum.splits)

theorem loadPackage_resolution_witness:
  "loads (trace (snd (loadPackage demo fresh (Str ''test'')))) = [''./packages/test.json'']
   \<and> loads (trace (snd (loadPackage demo fresh (Str ''/subfolder/test'')))) =
       [''./packages/subfolder/test.json'']
   \<and> fst (loadPackage demo fresh (Str ''greeter'')) =
       Inr (Obj [(''name'', Str ''greeter''), (''source'', Str ''/greeter.js'')])"
  using loadPackage_resolution [of demo fresh "''greeter''"]
  by (simp add: fresh_def packagesDirectory_def directory_def PACKAGES_def ROOT_def SOURCES_def
      startsWith_def demo_def demo_loadJson_def)

section \<open>Facts about the tables\<close>

lemma map_has_set: "map_has (map_set m k v) k' = (k' = k \<or> map_has m k')"
  by (simp add: map_has_def map_set_def update_conv)

lemma map_get_set: "map_get (map_set m k v) k' = (if k' = k then v else map_get m k')"
  by (simp add: map_get_def map_set_def update_conv)

section \<open>The default-fallback triple at construction\<close>

text \<open>
  Claim C9, as stated: whenever any of \<open>defaultApp\<close>, \<open>defaultCmd\<close>, \<open>defaultData\<close> is
  supplied, the constructor validates the supplied values as non-empty strings and
  fails otherwise. The constructor does not: validation stands under the guard
  \<open>if ( defaultApp )\<close> and never looks at \<open>defaultData\<close>. With \<open>defaultData = 5\<close> beside a
  valid application and command, and with \<open>defaultCmd = 5\<close> alone, construction succeeds.
\<close>

theorem constructor_fallback_counterexample:
  "\<not> nonempty_string (Num 5)
   \<and> constructor (fallback_config \<lparr> cfg_defaultData := Num 5 \<rparr>) =
       Inr (fresh \<lparr> modules := modules fresh @
                      [(Str ''executeWithFallback'', Native ''executeWithFallback'')],
                    defaultApp := Str ''greeter'', defaultCmd := Str ''greet'',
                    defaultData := Num 5 \<rparr>)
   \<and> constructor (no_config \<lparr> cfg_defaultCmd := Num 5 \<rparr>) = Inr (fresh \<lparr> defaultCmd := Num 5 \<rparr>)"
  by (simp add: constructor_def fallback_config_def no_config_def fresh_def Let_def builtins_def
      map_set_def isString_def hasValue_def ROOT_def SOURCES_def PACKAGES_def)

text \<open>
  Claim C9, amended. When \<open>defaultApp\<close> is truthy, the constructor succeeds exactly if
  \<open>defaultApp\<close> and \<open>defaultCmd\<close> are non-empty strings, fails with a validation error
  otherwise, and on success has \<open>executeWithFallback\<close> in the module table;
  \<open>defaultData\<close> is stored as it is. When \<open>defaultApp\<close> is absent, nothing is validated,
  whatever \<open>defaultCmd\<close> and \<open>defaultData\<close> are: construction succeeds and
  \<open>executeWithFallback\<close> is not in the table. (A \<open>defaultApp\<close> that is supplied and falsy,
  the empty string or 0, is left out: \<open>hasValue("defaultApp", defaultApp)\<close> under the guard
  \<open>if ( defaultApp )\<close> shows a rejection that the guard keeps from happening.)
\<close>

theorem constructor_fallback:
  "(truthy (cfg_defaultApp cfg) \<longrightarrow>
      (if nonempty_string (cfg_defaultApp cfg) \<and> nonempty_string (cfg_defaultCmd cfg)
       then \<exists>s. constructor cfg = Inr s \<and> map_has (modules s) (Str ''executeWithFallback'')
              \<and> defaultApp s = cfg_defaultApp cfg \<and> defaultCmd s = cfg_defaultCmd cfg
              \<and> defaultData s = cfg_defaultData cfg
       else \<exists>p. constructor cfg = Inl (ValidationError p)))
   \<and> (cfg_defaultApp cfg = Undefined \<longrightarrow>
        (\<exists>s. constructor cfg = Inr s \<and> \<not> map_has (modules s) (Str ''executeWithFallback'')
           \<and> defaultApp s = Undefined \<and> defaultCmd s = cfg_defaultCmd cfg
           \<and> defaultData s = cfg_defaultData cfg))"
proof (intro conjI impI)
  assume t: "truthy (cfg_defaultApp cfg)"
  show "if nonempty_string (cfg_defaultApp cfg) \<and> nonempty_string (cfg_defaultCmd cfg)
       then \<exists>s. constructor cfg = Inr s \<and> map_has (modules s) (Str ''executeWithFallback'')
              \<and> defaultApp s = cfg_defaultApp cfg \<and> defaultCmd s = cfg_defaultCmd cfg
              \<and> defaultData s = cfg_defaultData cfg
       else \<exists>p. constructor cfg = Inl (ValidationError p)"
  proof (cases "nonempty_string (cfg_defaultApp cfg) \<and> nonempty_string (cfg_defaultCmd cfg)")
    case True
    then obtain a c where "cfg_defaultApp cfg = Str a" "a \<noteq> []"
        "cfg_defaultCmd cfg = Str c" "c \<noteq> []"
      by (cases "cfg_defaultApp cfg"; cases "cfg_defaultCmd cfg") simp_all
    then show ?thesis
      by (simp add: constructor_def Let_def isString_def hasValue_def map_has_set)
  next
    case False
    then show ?thesis using t
      by (cases "cfg_defaultApp cfg"; cases "cfg_defaultCmd cfg")
         (simp_all add: constructor_def Let_def isString_def hasValue_def)
  qed
next
  assume "cfg_defaultApp cfg = Undefined"
  then show "\<exists>s. constructor cfg = Inr s \<and> \<not> map_has (modules s) (Str ''executeWithFallback'')
           \<and> defaultApp s = Undefined \<and> defaultCmd s = cfg_defaultCmd cfg
           \<and> defaultData s = cfg_defaultData cfg"
    by (simp add: constructor_def Let_def builtins_def map_has_set) (simp add: map_has_def)
qed

theorem constructor_fallback_witness:
  "truthy (Str ''greeter'') \<and> nonempty_string (Str ''greeter'') \<and> nonempty_string (Str ''greet'')
   \<and> (\<exists>s. constructor fallback_config = Inr s
          \<and> map_has (modules s) (Str ''executeWithFallback'')
          \<and> defaultData s = Str ''Nobody'')
   \<and> cfg_defaultApp (no_config \<lparr> cfg_defaultCmd := Num 5 \<rparr>) = Undefined
   \<and> (\<exists>s. constructor (no_config \<lparr> cfg_defaultCmd := Num 5 \<rparr>) = Inr s
          \<and> \<not> map_has (modules s) (Str ''executeWithFallback'')
          \<and> defaultCmd s = Num 5)"
  using constructor_fallback [of fallback_config]
    constructor_fallback [of "no_config \<lparr> cfg_defaultCmd := Num 5 \<rparr>"]
  by (auto simp: fallback_config_def no_config_def)


lemma keys_map_set: "keys (map_set m k v) = insert k (keys m)"
  by (simp add: keys_def map_set_def dom_update)

lemma map_get_truthy_has: "truthy (map_get m k) \<Longrightarrow> map_has m k"
  by (auto simp: map_get_def map_has_def split: option.splits)

section \<open>The tables only grow\<close>

lemma reg_growsD: "reg_grows reg \<Longrightarrow> reg s i b = Some (r, s') \<Longrightarrow> grows s s'"
  by (auto simp: reg_grows_def)

lemma grows_refl: "grows s s"
  by (simp add: grows_def)

lemma grows_trans: "grows s s1 \<Longrightarrow> grows s1 s2 \<Longrightarrow> grows s s2"
  by (auto simp: grows_def)

lemma loadPackage_grows: "loadPackage w s p = (r, s') \<Longrightarrow> grows s s'"
  by (auto simp: loadPackage_def grows_def Let_def split: jsval.splits sum.splits)

lemma loadPackage_loaded: "loadPackage w s p = (Inr pkg, s') \<Longrightarrow> dflt (Str '''') p \<in> packages s'"
  by (auto simp: loadPackage_def Let_def split: jsval.splits sum.splits)

lemma import_grows: "import w s p = (r, s') \<Longrightarrow> grows s s'"
  by (auto simp: import_def grows_def Let_def split: if_splits sum.splits)

lemma registerBuilder_grows: "registerBuilder s i f d = (r, s') \<Longrightarrow> grows s s'"
  by (auto simp: registerBuilder_def createBuilder_def inject_def grows_def Let_def keys_map_set)

lemma applyAndBuild_grows: "applyAndBuild w s i b fs = (r, s') \<Longrightarrow> grows s s'"
  by (auto simp: applyAndBuild_def applySettings_def grows_def Let_def keys_map_set
      split: jsval.splits if_splits sum.splits)

lemma sourcesBody_grows: "sourcesBody w s x d = (r, s') \<Longrightarrow> grows s s'"
  by (auto simp: sourcesBody_def grows_refl split: sum.splits prod.splits dest: import_grows)

lemma sourcesLoop_grows: "sourcesLoop w s xs d = (r, s') \<Longrightarrow> grows s s'"
proof (induction xs arbitrary: s d)
  case Nil
  then show ?case by (simp add: grows_refl)
next
  case (Cons x xs)
  then show ?case
    by (auto split: prod.splits sum.splits dest!: sourcesBody_grows elim: grows_trans)
qed

lemma packagesBody_grows:
  "reg_grows reg \<Longrightarrow> packagesBody reg s p d = Some (r, s') \<Longrightarrow> grows s s'"
  by (auto simp: packagesBody_def grows_refl
      split: sum.splits prod.splits if_splits option.splits dest: reg_growsD)

lemma packagesLoop_grows:
  "reg_grows reg \<Longrightarrow> packagesLoop reg s ps d = Some (r, s') \<Longrightarrow> grows s s'"
proof (induction ps arbitrary: s d)
  case Nil
  then show ?case by (simp add: grows_refl)
next
  case (Cons p ps)
  then show ?case
    by (auto split: option.splits prod.splits sum.splits
        dest!: packagesBody_grows elim: grows_trans)
qed

lemma getDependencies_grows:
  "reg_grows reg \<Longrightarrow> getDependencies reg w s d = Some (r, s') \<Longrightarrow> grows s s'"
  by (auto simp: getDependencies_def Let_def grows_refl
      simp del: packagesLoop.simps sourcesLoop.simps
      split: if_splits option.splits prod.splits sum.splits jsval.splits list.splits
      dest!: packagesLoop_grows sourcesLoop_grows elim: grows_trans)

lemma createModuleFromBuilder_grows:
  "reg_grows reg \<Longrightarrow> createModuleFromBuilder reg w s i b fs = Some (r, s') \<Longrightarrow> grows s s'"
  by (auto simp: createModuleFromBuilder_def Let_def
      split: if_splits option.splits prod.splits sum.splits
      dest!: applyAndBuild_grows reg_growsD elim: grows_trans)

text \<open>
  Registration by induction on the fuel: the nested registrations grow the tables by
  the induction hypothesis, every other step by the lemmas above.
\<close>

lemma register_grows: "register n w s i b = Some (r, s') \<Longrightarrow> grows s s'"
proof (induction n arbitrary: s i b r s')
  case 0
  then show ?case by (simp add: register.simps)
next
  case (Suc n)
  have rg: "reg_grows (register n w)"
    unfolding reg_grows_def using Suc.IH by blast
  from Suc.prems show ?case
    by (auto simp: register.simps Let_def grows_refl
        split: if_splits prod.splits sum.splits option.splits
        dest!: loadPackage_grows import_grows registerBuilder_grows
          getDependencies_grows [OF rg] createModuleFromBuilder_grows [OF rg]
        elim: grows_trans)
       (blast intro: grows_trans)+
qed

section \<open>What a successful registration leaves behind\<close>

lemma dflt_idem: "dflt d (dflt d v) = dflt d v"
  by (simp add: dflt_def)

lemma applyAndBuild_stored:
  "applyAndBuild w s mid bid fs = (Inr m, s') \<Longrightarrow>
     map_has (modules s') mid \<and> map_get (modules s') mid = m"
  by (auto simp: applyAndBuild_def Let_def map_has_set map_get_set
      split: jsval.splits if_splits sum.splits)

lemma createModuleFromBuilder_stored:
  "createModuleFromBuilder reg w s mid bid fs = Some (Inr m, s') \<Longrightarrow>
     map_has (modules s') (dflt (Str '''') mid) \<and> map_get (modules s') (dflt (Str '''') mid) = m"
  by (auto simp: createModuleFromBuilder_def Let_def
      split: if_splits option.splits prod.splits sum.splits dest: applyAndBuild_stored)

lemma register_stored:
  "register n w s i b = Some (Inr m, s') \<Longrightarrow> truthy (dflt (Bool True) b) \<Longrightarrow>
     map_has (modules s') (dflt (Str '''') i) \<and> map_get (modules s') (dflt (Str '''') i) = m"
proof (cases n)
  case 0
  then show "register n w s i b = Some (Inr m, s') \<Longrightarrow> ?thesis" by (simp add: register.simps)
next
  case (Suc k)
  assume "register n w s i b = Some (Inr m, s')" "truthy (dflt (Bool True) b)"
  then show ?thesis using Suc
    by (auto simp: register.simps Let_def dflt_idem map_get_truthy_has
        split: if_splits prod.splits sum.splits option.splits
        dest!: createModuleFromBuilder_stored)
qed

lemma register_loaded:
  "register n w s i b = Some (Inr m, s') \<Longrightarrow> dflt (Str '''') i \<in> packages s'"
proof (cases n)
  case 0
  then show "register n w s i b = Some (Inr m, s') \<Longrightarrow> ?thesis" by (simp add: register.simps)
next
  case (Suc k)
  have rg: "reg_grows (register k w)"
    unfolding reg_grows_def using register_grows by blast
  assume "register n w s i b = Some (Inr m, s')"
  then show ?thesis using Suc
    by (auto simp: register.simps Let_def dflt_idem
        split: if_splits prod.splits sum.splits option.splits
        dest!: loadPackage_loaded import_grows registerBuilder_grows
          getDependencies_grows [OF rg] createModuleFromBuilder_grows [OF rg]
        simp: grows_def)
       blast+
qed

lemma register_greeter:
  "register (Suc 0) demo fresh (Str ''greeter'') Undefined =
     Some (Inr (Obj [(''greet'', Fn ''greet'')]), greeted)"
  by (simp add: model_defs demo_defs greeted_def)

lemma register_test:
  "register (Suc 0) demo fresh (Str ''test'') Undefined = Some (Inr (Fn ''test.module''), tested)"
  by (simp add: model_defs demo_defs tested_def)

lemma execute_greeter:
  "execute (Suc 0) demo fresh (Str ''greeter'') (Str ''greet'') (Str ''John'') =
     Some (Inr (Str ''Hello John''), greeted)"
  by (simp add: model_defs demo_defs greeted_def)

section \<open>Execution\<close>

lemma register_default_build: "register n w s i Undefined = register n w s i (Bool True)"
  by (cases n) (simp_all add: register.simps dflt_def)

lemma nonempty_string_valid:
  "nonempty_string v \<Longrightarrow> isString p v = None \<and> hasValue q v = None \<and> dflt (Str '''') v = v"
  by (cases v) (simp_all add: isString_def hasValue_def dflt_def)

lemma execute_invalid:
  "\<not> (nonempty_string (dflt (Str '''') a) \<and> nonempty_string (dflt (Str '''') c)) \<Longrightarrow>
     \<exists>p. \<forall>n w s d. execute n w s a c d = Some (Inl (ValidationError p), s)"
  by (cases "dflt (Str '''') a"; cases "dflt (Str '''') c")
     (auto simp: execute_def executeBody_def Let_def isString_def hasValue_def)

lemma execute_valid:
  "nonempty_string a \<Longrightarrow> nonempty_string c \<Longrightarrow>
     execute n w s a c d =
       (case (if \<not> map_has (modules s) a then register n w s a (Bool True)
              else Some (Inr Undefined, s)) of
          None \<Rightarrow> None
        | Some (Inl e, s1) \<Rightarrow> Some (Inl e, s1)
        | Some (Inr r, s1) \<Rightarrow>
            member_call (native n w) w s1 (map_get (modules s1) a) (js_str w c) d)"
  by (simp add: execute_def executeBody_def Let_def nonempty_string_valid register_default_build
      split: option.splits sum.splits prod.splits)

lemma call_member_not_callable:
  "(\<forall>g. f \<noteq> Fn g) \<Longrightarrow> (\<forall>j. f \<noteq> Native j) \<Longrightarrow>
     call_member nats w s f app d = Some (Inl TypeError, s)"
  by (cases f) (simp_all add: call_member_def)

lemma member_call_world:
  "app \<noteq> Undefined \<Longrightarrow> app \<noteq> Null \<Longrightarrow> \<not> instance_member s app k \<Longrightarrow>
     member_call nats w s app k d = call_member nats w s (get_member w app k) app d"
  by (cases app) (auto simp: member_call_def instance_member_def)


lemma greeted_greeter:
  "map_has (modules greeted) (Str ''greeter'')
   \<and> map_get (modules greeted) (Str ''greeter'') = Obj [(''greet'', Fn ''greet'')]"
  by (simp add: greeted_def fresh_def map_has_def map_get_def builtins_def)

lemma tested_test:
  "map_has (modules tested) (Str ''test'')
   \<and> map_get (modules tested) (Str ''test'') = Fn ''test.module''"
  by (simp add: tested_def fresh_def map_has_def map_get_def builtins_def)

lemma greeter_members:
  "member_call nats demo s (Obj [(''greet'', Fn ''greet'')]) ''greet'' (Str ''John'') =
     Some (Inr (Str ''Hello John''), s)"
  "member_call nats demo s (Obj [(''greet'', Fn ''greet'')]) ''greet'' (Num 5) =
     Some (Inr (Str ''Hello 5''), s)"
  "member_call nats demo s (Obj [(''greet'', Fn ''greet'')]) ''greet'' Undefined =
     Some (Inr (Str ''Hello undefined''), s)"
  "member_call nats demo s (Obj [(''greet'', Fn ''greet'')]) ''shout'' (Str ''John'') =
     Some (Inl TypeError, s)"
  "member_call nats demo s (Obj [(''greet'', Fn ''greet'')]) ''toString'' Undefined =
     Some (Inr (Str ''[object Object]''), s)"
  by (simp_all add: member_call_def call_member_def get_member_def demo_defs decimal.simps
      digit_def)

lemma test_members:
  "member_call nats demo s (Fn ''test.module'') ''call'' Undefined =
     Some (Inr (Str ''I a module''), s)"
  "member_call nats demo s (Fn ''test.module'') ''run'' Undefined = Some (Inl TypeError, s)"
  by (simp_all add: member_call_def call_member_def get_member_def demo_defs)

text \<open>
  Claim C5. \<open>execute(nextApp, cmd, data)\<close> fails with a validation error, touching
  nothing, unless \<open>nextApp\<close> and \<open>cmd\<close> (after their defaults) are both non-empty
  strings. When they are: if \<open>nextApp\<close> is in the module table, the member \<open>cmd\<close> of
  the stored module is called with \<open>data\<close>; if it is not, \<open>register(nextApp)\<close> runs with
  \<open>build = true\<close>, its failure is the failure of \<open>execute\<close>, and on success the member
  \<open>cmd\<close> of the module it returned (which is the one now stored) is called with
  \<open>data\<close>. The outcome of that call is the outcome of \<open>execute\<close>. The member is looked up
  as the language does, inherited members included: on a module of the loaded code the
  call is that of \<open>app[cmd]\<close> with the module as receiver and \<open>data\<close> as argument, a
  function of the loaded code being run by the world and a function of the instance by
  the instance. A module that is \<open>undefined\<close> or \<open>null\<close>, and a member that is not
  callable (none of that name among them), make the call fail: the language's
  TypeError is the failure the specification names ExecutionError.
\<close>

theorem execute_contract:
  "(\<not> (nonempty_string (dflt (Str '''') a) \<and> nonempty_string (dflt (Str '''') c)) \<longrightarrow>
      (\<exists>p. execute n w s a c d = Some (Inl (ValidationError p), s)))
   \<and> (nonempty_string a \<and> nonempty_string c \<longrightarrow>
        (map_has (modules s) a \<longrightarrow>
           execute n w s a c d =
             member_call (native n w) w s (map_get (modules s) a) (js_str w c) d)
      \<and> (\<not> map_has (modules s) a \<longrightarrow>
           (\<forall>m s1. register n w s a (Bool True) = Some (Inr m, s1) \<longrightarrow>
              map_get (modules s1) a = m
              \<and> execute n w s a c d = member_call (native n w) w s1 m (js_str w c) d)
         \<and> (\<forall>e s1. register n w s a (Bool True) = Some (Inl e, s1) \<longrightarrow>
              execute n w s a c d = Some (Inl e, s1))
         \<and> (register n w s a (Bool True) = None \<longrightarrow> execute n w s a c d = None)))
   \<and> member_call nats w s Undefined k d = Some (Inl TypeError, s)
   \<and> member_call nats w s Null k d = Some (Inl TypeError, s)
   \<and> (app \<noteq> Undefined \<and> app \<noteq> Null \<and> \<not> instance_member s app k \<longrightarrow>
        member_call nats w s app k d = call_member nats w s (get_member w app k) app d)
   \<and> call_member nats w s (Fn g) app d = Some (invoke w g app d, s)
   \<and> call_member nats w s (Native j) app d = nats j s [d]
   \<and> ((\<forall>g. f \<noteq> Fn g) \<and> (\<forall>j. f \<noteq> Native j) \<longrightarrow>
        call_member nats w s f app d = Some (Inl TypeError, s))
   \<and> get_member w (Obj fs) k = (case map_of fs k of Some x \<Rightarrow> x | None \<Rightarrow> inherited w (Obj fs) k)
   \<and> get_member w (Fn g) k = inherited w (Fn g) k"
proof (intro conjI impI allI)
  assume "\<not> (nonempty_string (dflt (Str '''') a) \<and> nonempty_string (dflt (Str '''') c))"
  then have "\<exists>p. \<forall>n w s d. execute n w s a c d = Some (Inl (ValidationError p), s)"
    by (rule execute_invalid)
  then show "\<exists>p. execute n w s a c d = Some (Inl (ValidationError p), s)"
    by blast
next
  assume v: "nonempty_string a \<and> nonempty_string c" and "map_has (modules s) a"
  then show "execute n w s a c d =
      member_call (native n w) w s (map_get (modules s) a) (js_str w c) d"
    by (simp add: execute_valid)
next
  fix m s1
  assume v: "nonempty_string a \<and> nonempty_string c" and h: "\<not> map_has (modules s) a"
    and r: "register n w s a (Bool True) = Some (Inr m, s1)"
  from v have a: "dflt (Str '''') a = a" by (simp add: nonempty_string_valid)
  from register_stored [OF r] a show "map_get (modules s1) a = m"
    by (simp add: dflt_def)
  with v h r show "execute n w s a c d = member_call (native n w) w s1 m (js_str w c) d"
    by (simp add: execute_valid)
next
  fix e s1
  assume "nonempty_string a \<and> nonempty_string c" "\<not> map_has (modules s) a"
    "register n w s a (Bool True) = Some (Inl e, s1)"
  then show "execute n w s a c d = Some (Inl e, s1)"
    by (simp add: execute_valid)
next
  assume "nonempty_string a \<and> nonempty_string c" "\<not> map_has (modules s) a"
    "register n w s a (Bool True) = None"
  then show "execute n w s a c d = None"
    by (simp add: execute_valid)
next
  show "member_call nats w s Undefined k d = Some (Inl TypeError, s)"
    "member_call nats w s Null k d = Some (Inl TypeError, s)"
    by (simp_all add: member_call_def)
next
  assume "app \<noteq> Undefined \<and> app \<noteq> Null \<and> \<not> instance_member s app k"
  then show "member_call nats w s app k d = call_member nats w s (get_member w app k) app d"
    by (simp add: member_call_world)
next
  show "call_member nats w s (Fn g) app d = Some (invoke w g app d, s)"
    "call_member nats w s (Native j) app d = nats j s [d]"
    by (simp_all add: call_member_def)
next
  assume "(\<forall>g. f \<noteq> Fn g) \<and> (\<forall>j. f \<noteq> Native j)"
  then show "call_member nats w s f app d = Some (Inl TypeError, s)"
    by (simp add: call_member_not_callable)
next
  show "get_member w (Obj fs) k =
      (case map_of fs k of Some x \<Rightarrow> x | None \<Rightarrow> inherited w (Obj fs) k)"
    "get_member w (Fn g) k = inherited w (Fn g) k"
    by (simp_all add: get_member_def)
qed

theorem execute_contract_witness:
  "\<not> nonempty_string (dflt (Str '''') (Num 5))
   \<and> (\<exists>p. execute (Suc 0) demo fresh (Num 5) (Str ''greet'') (Str ''John'') =
          Some (Inl (ValidationError p), fresh))
   \<and> nonempty_string (Str ''greeter'') \<and> nonempty_string (Str ''greet'')
   \<and> \<not> map_has (modules fresh) (Str ''greeter'')
   \<and> register (Suc 0) demo fresh (Str ''greeter'') (Bool True) =
       Some (Inr (Obj [(''greet'', Fn ''greet'')]), greeted)
   \<and> execute (Suc 0) demo fresh (Str ''greeter'') (Str ''greet'') (Str ''John'') =
       Some (Inr (Str ''Hello John''), greeted)
   \<and> map_has (modules greeted) (Str ''greeter'')
   \<and> execute (Suc 0) demo greeted (Str ''greeter'') (Str ''greet'') (Num 5) =
       Some (Inr (Str ''Hello 5''), greeted)
   \<and> execute (Suc 0) demo greeted (Str ''greeter'') (Str ''greet'') Undefined =
       Some (Inr (Str ''Hello undefined''), greeted)
   \<and> \<not> instance_member greeted (Obj [(''greet'', Fn ''greet'')]) ''shout''
   \<and> get_member demo (Obj [(''greet'', Fn ''greet'')]) ''shout'' = Undefined
   \<and> execute (Suc 0) demo greeted (Str ''greeter'') (Str ''shout'') (Str ''John'') =
       Some (Inl TypeError, greeted)
   \<and> \<not> instance_member greeted (Obj [(''greet'', Fn ''greet'')]) ''toString''
   \<and> get_member demo (Obj [(''greet'', Fn ''greet'')]) ''toString'' =
       Fn ''Object.prototype.toString''
   \<and> execute (Suc 0) demo greeted (Str ''greeter'') (Str ''toString'') Undefined =
       Some (Inr (Str ''[object Object]''), greeted)
   \<and> \<not> map_has (modules fresh) (Str ''test'')
   \<and> register (Suc 0) demo fresh (Str ''test'') (Bool True) =
       Some (Inr (Fn ''test.module''), tested)
   \<and> execute (Suc 0) demo fresh (Str ''test'') (Str ''call'') Undefined =
       Some (Inr (Str ''I a module''), tested)
   \<and> execute (Suc 0) demo tested (Str ''test'') (Str ''run'') Undefined =
       Some (Inl TypeError, tested)"
proof -
  have r: "register (Suc 0) demo fresh (Str ''greeter'') (Bool True) =
       Some (Inr (Obj [(''greet'', Fn ''greet'')]), greeted)"
    using register_greeter by (simp add: register_default_build)
  have t: "register (Suc 0) demo fresh (Str ''test'') (Bool True) =
       Some (Inr (Fn ''test.module''), tested)"
    using register_test by (simp add: register_default_build)
  have h: "\<not> map_has (modules fresh) (Str ''greeter'')" "\<not> map_has (modules fresh) (Str ''test'')"
    by (simp_all add: fresh_def map_has_def builtins_def)
  have v: "nonempty_string (Str ''greeter'')" "nonempty_string (Str ''greet'')"
    "nonempty_string (Str ''shout'')" "nonempty_string (Str ''toString'')"
    "nonempty_string (Str ''test'')" "nonempty_string (Str ''call'')"
    "nonempty_string (Str ''run'')" "\<not> nonempty_string (dflt (Str '''') (Num 5))"
    by (simp_all add: dflt_def)
  note g = greeted_greeter [THEN conjunct1] greeted_greeter [THEN conjunct2]
  note u = tested_test [THEN conjunct1] tested_test [THEN conjunct2]
  note c0 = execute_contract [where a = "Num 5" and c = "Str ''greet''" and n = "Suc 0"
      and w = demo and s = fresh and d = "Str ''John''"]
  note c1 = execute_contract [where a = "Str ''greeter''" and c = "Str ''greet''" and n = "Suc 0"
      and w = demo and s = fresh and d = "Str ''John''"]
  note c2 = execute_contract [where a = "Str ''greeter''" and c = "Str ''greet''" and n = "Suc 0"
      and w = demo and s = greeted and d = "Num 5"]
  note c3 = execute_contract [where a = "Str ''greeter''" and c = "Str ''greet''" and n = "Suc 0"
      and w = demo and s = greeted and d = Undefined]
  note c4 = execute_contract [where a = "Str ''greeter''" and c = "Str ''shout''" and n = "Suc 0"
      and w = demo and s = greeted and d = "Str ''John''"]
  note c5 = execute_contract [where a = "Str ''greeter''" and c = "Str ''toString''"
      and n = "Suc 0" and w = demo and s = greeted and d = Undefined]
  note c6 = execute_contract [where a = "Str ''test''" and c = "Str ''call''" and n = "Suc 0"
      and w = demo and s = fresh and d = Undefined]
  note c7 = execute_contract [where a = "Str ''test''" and c = "Str ''run''" and n = "Suc 0"
      and w = demo and s = tested and d = Undefined]
  from c0 v have 0: "\<exists>p. execute (Suc 0) demo fresh (Num 5) (Str ''greet'') (Str ''John'') =
          Some (Inl (ValidationError p), fresh)"
    by blast
  from c1 v h r have "execute (Suc 0) demo fresh (Str ''greeter'') (Str ''greet'') (Str ''John'') =
      member_call (native (Suc 0) demo) demo greeted (Obj [(''greet'', Fn ''greet'')])
        (js_str demo (Str ''greet'')) (Str ''John'')"
    by blast
  then have 1: "execute (Suc 0) demo fresh (Str ''greeter'') (Str ''greet'') (Str ''John'') =
       Some (Inr (Str ''Hello John''), greeted)"
    by (simp add: greeter_members)
  from c2 v g have "execute (Suc 0) demo greeted (Str ''greeter'') (Str ''greet'') (Num 5) =
      member_call (native (Suc 0) demo) demo greeted (map_get (modules greeted) (Str ''greeter''))
        (js_str demo (Str ''greet'')) (Num 5)"
    by blast
  then have 2: "execute (Suc 0) demo greeted (Str ''greeter'') (Str ''greet'') (Num 5) =
       Some (Inr (Str ''Hello 5''), greeted)"
    by (simp add: g greeter_members)
  from c3 v g have "execute (Suc 0) demo greeted (Str ''greeter'') (Str ''greet'') Undefined =
      member_call (native (Suc 0) demo) demo greeted (map_get (modules greeted) (Str ''greeter''))
        (js_str demo (Str ''greet'')) Undefined"
    by blast
  then have 3: "execute (Suc 0) demo greeted (Str ''greeter'') (Str ''greet'') Undefined =
       Some (Inr (Str ''Hello undefined''), greeted)"
    by (simp add: g greeter_members)
  from c4 v g have "execute (Suc 0) demo greeted (Str ''greeter'') (Str ''shout'') (Str ''John'') =
      member_call (native (Suc 0) demo) demo greeted (map_get (modules greeted) (Str ''greeter''))
        (js_str demo (Str ''shout'')) (Str ''John'')"
    by blast
  moreover have i4: "\<not> instance_member greeted (Obj [(''greet'', Fn ''greet'')]) ''shout''"
    by (simp add: instance_member_def)
  moreover from execute_contract [where w = demo and fs = "[(''greet'', Fn ''greet'')]"
      and k = "''shout''", THEN conjunct2, THEN conjunct2, THEN conjunct2, THEN conjunct2, THEN conjunct2, THEN conjunct2, THEN conjunct2, THEN conjunct2, THEN conjunct1]
  have g4: "get_member demo (Obj [(''greet'', Fn ''greet'')]) ''shout'' = Undefined"
    by (simp add: demo_defs)
  moreover note execute_contract [where w = demo and s = greeted
      and nats = "native (Suc 0) demo" and app = "Obj [(''greet'', Fn ''greet'')]"
      and k = "''shout''" and d = "Str ''John''", THEN conjunct2, THEN conjunct2, THEN conjunct2, THEN conjunct2, THEN conjunct1]
    execute_contract [where w = demo and s = greeted and nats = "native (Suc 0) demo"
      and f = Undefined and app = "Obj [(''greet'', Fn ''greet'')]" and d = "Str ''John''",
      THEN conjunct2, THEN conjunct2, THEN conjunct2, THEN conjunct2, THEN conjunct2, THEN conjunct2, THEN conjunct2, THEN conjunct1]
  ultimately
  have 4: "execute (Suc 0) demo greeted (Str ''greeter'') (Str ''shout'') (Str ''John'') =
       Some (Inl TypeError, greeted)"
    by (simp add: g)
  from c5 v g have "execute (Suc 0) demo greeted (Str ''greeter'') (Str ''toString'') Undefined =
      member_call (native (Suc 0) demo) demo greeted (map_get (modules greeted) (Str ''greeter''))
        (js_str demo (Str ''toString'')) Undefined"
    by blast
  moreover have i5: "\<not> instance_member greeted (Obj [(''greet'', Fn ''greet'')]) ''toString''"
    by (simp add: instance_member_def)
  moreover from execute_contract [where w = demo and fs = "[(''greet'', Fn ''greet'')]"
      and k = "''toString''", THEN conjunct2, THEN conjunct2, THEN conjunct2, THEN conjunct2, THEN conjunct2, THEN conjunct2, THEN conjunct2, THEN conjunct2, THEN conjunct1]
  have g5: "get_member demo (Obj [(''greet'', Fn ''greet'')]) ''toString'' =
      Fn ''Object.prototype.toString''"
    by (simp add: demo_defs)
  moreover note execute_contract [where w = demo and s = greeted
      and nats = "native (Suc 0) demo" and app = "Obj [(''greet'', Fn ''greet'')]"
      and k = "''toString''" and d = Undefined, THEN conjunct2, THEN conjunct2, THEN conjunct2, THEN conjunct2, THEN conjunct1]
    execute_contract [where w = demo and s = greeted and nats = "native (Suc 0) demo"
      and g = "''Object.prototype.toString''" and app = "Obj [(''greet'', Fn ''greet'')]"
      and d = Undefined, THEN conjunct2, THEN conjunct2, THEN conjunct2, THEN conjunct2, THEN conjunct2, THEN conjunct1]
  ultimately
  have 5: "execute (Suc 0) demo greeted (Str ''greeter'') (Str ''toString'') Undefined =
       Some (Inr (Str ''[object Object]''), greeted)"
    by (simp add: g demo_defs)
  from c6 v h t have "execute (Suc 0) demo fresh (Str ''test'') (Str ''call'') Undefined =
      member_call (native (Suc 0) demo) demo tested (Fn ''test.module'')
        (js_str demo (Str ''call'')) Undefined"
    by blast
  then have 6: "execute (Suc 0) demo fresh (Str ''test'') (Str ''call'') Undefined =
       Some (Inr (Str ''I a module''), tested)"
    by (simp add: test_members)
  from c7 v u have "execute (Suc 0) demo tested (Str ''test'') (Str ''run'') Undefined =
      member_call (native (Suc 0) demo) demo tested (map_get (modules tested) (Str ''test''))
        (js_str demo (Str ''run'')) Undefined"
    by blast
  then have 7: "execute (Suc 0) demo tested (Str ''test'') (Str ''run'') Undefined =
       Some (Inl TypeError, tested)"
    by (simp add: u test_members)
  from 0 1 2 3 4 5 6 7 v h r t g i4 g4 i5 g5 show ?thesis by simp
qed

section \<open>Execution with fallback\<close>

lemma execute_dflt:
  "execute n w s (dflt (Str '''') a) (dflt (Str '''') c) d = execute n w s a c d"
  by (simp add: execute_def executeBody_def dflt_idem)

lemma execute_registered:
  assumes r: "register n w s a (Bool True) = Some (Inr m, s1)"
    and a: "dflt (Str '''') a = a" and h: "\<not> map_has (modules s) a"
  shows "map_option fst (execute n w s1 a c d) = map_option fst (execute n w s a c d)"
proof (cases "nonempty_string a \<and> nonempty_string (dflt (Str '''') c)")
  case True
  from register_stored [OF r] a have "map_has (modules s1) a" by (simp add: dflt_def)
  with True r h have "execute n w s1 a (dflt (Str '''') c) d = execute n w s a (dflt (Str '''') c) d"
    by (simp add: execute_valid)
  then show ?thesis using execute_dflt [of n w s a c d] execute_dflt [of n w s1 a c d] a
    by simp
next
  case False
  with a have f: "\<not> (nonempty_string (dflt (Str '''') a) \<and> nonempty_string (dflt (Str '''') c))"
    by simp
  from execute_invalid [OF f] show ?thesis by auto
qed

text \<open>
  Claim C6. \<open>executeWithFallback(nextApp, cmd, data)\<close> is \<open>execute(nextApp, cmd, data)\<close>
  when \<open>nextApp\<close> is already in the module table. When it is not and registering it
  succeeds, it is \<open>execute\<close> run after that registration, and returns what
  \<open>execute(nextApp, cmd, data)\<close> returns from the start. When registering it fails,
  the failure is dropped, a line is logged, and the call is
  \<open>execute(defaultApp, defaultCmd, defaultData)\<close> with the configured triple, run in
  the state the failed registration left: whatever that second attempt returns or
  throws is the outcome.
\<close>

theorem executeWithFallback_contract:
  "(map_has (modules s) (dflt (Str '''') a) \<longrightarrow>
      executeWithFallback n w s a c d = execute n w s a c d)
   \<and> (\<not> map_has (modules s) (dflt (Str '''') a) \<longrightarrow>
        (\<forall>m s1. register n w s (dflt (Str '''') a) (Bool True) = Some (Inr m, s1) \<longrightarrow>
           executeWithFallback n w s a c d = execute n w s1 a c d
           \<and> map_option fst (executeWithFallback n w s a c d) =
               map_option fst (execute n w s a c d))
      \<and> (\<forall>e s1. register n w s (dflt (Str '''') a) (Bool True) = Some (Inl e, s1) \<longrightarrow>
           defaultApp s1 = defaultApp s \<and> defaultCmd s1 = defaultCmd s
           \<and> defaultData s1 = defaultData s
           \<and> executeWithFallback n w s a c d =
               execute n w
                 (s1 \<lparr> trace := trace s1 @ [ConsoleLog (fallbackMessage w (dflt (Str '''') a)
                                                         (defaultApp s))] \<rparr>)
                 (defaultApp s) (defaultCmd s) (defaultData s)))"
proof (intro conjI impI allI)
  assume "map_has (modules s) (dflt (Str '''') a)"
  then show "executeWithFallback n w s a c d = execute n w s a c d"
    using execute_dflt [of n w s a c d]
    by (simp add: executeWithFallback_def executeWithFallbackBody_def Let_def)
next
  fix m s1
  assume h: "\<not> map_has (modules s) (dflt (Str '''') a)"
    and r: "register n w s (dflt (Str '''') a) (Bool True) = Some (Inr m, s1)"
  then show e: "executeWithFallback n w s a c d = execute n w s1 a c d"
    using execute_dflt [of n w s1 a c d]
    by (simp add: executeWithFallback_def executeWithFallbackBody_def Let_def
        register_default_build)
  from execute_registered [OF r _ h, of c d]
  have "map_option fst (execute n w s1 (dflt (Str '''') a) c d) =
        map_option fst (execute n w s (dflt (Str '''') a) c d)"
    by (simp add: dflt_idem)
  moreover have "execute n w s1 (dflt (Str '''') a) c d = execute n w s1 a c d"
    "execute n w s (dflt (Str '''') a) c d = execute n w s a c d"
    by (simp_all add: execute_def executeBody_def dflt_idem)
  ultimately show "map_option fst (executeWithFallback n w s a c d) =
      map_option fst (execute n w s a c d)"
    using e by simp
next
  fix e s1
  assume h: "\<not> map_has (modules s) (dflt (Str '''') a)"
    and r: "register n w s (dflt (Str '''') a) (Bool True) = Some (Inl e, s1)"
  from register_grows [OF r]
  show g: "defaultApp s1 = defaultApp s" "defaultCmd s1 = defaultCmd s"
    "defaultData s1 = defaultData s"
    by (simp_all add: grows_def)
  from h r g show "executeWithFallback n w s a c d =
      execute n w
        (s1 \<lparr> trace := trace s1 @ [ConsoleLog (fallbackMessage w (dflt (Str '''') a)
                                                (defaultApp s))] \<rparr>)
        (defaultApp s) (defaultCmd s) (defaultData s)"
    by (simp add: executeWithFallback_def executeWithFallbackBody_def Let_def
        register_default_build)
qed


lemma register_shouter:
  "register (Suc 0) demo fallback_fresh (Str ''shouter'') (Bool True) =
     Some (Inl (PackageLoadError ''./packages/shouter.json'' (Thrown (Str ''NotFound''))),
           shouter_failed)"
  by (simp add: model_defs demo_defs fallback_fresh_def shouter_failed_def)

lemma execute_default:
  "map_option fst (execute (Suc 0) demo
      (shouter_failed \<lparr> trace := trace shouter_failed @ [ConsoleLog x] \<rparr>)
      (Str ''greeter'') (Str ''greet'') (Str ''Nobody'')) = Some (Inr (Str ''Hello Nobody''))"
  by (simp add: model_defs demo_defs fallback_fresh_def shouter_failed_def)

theorem executeWithFallback_contract_witness:
  "map_has (modules greeted) (dflt (Str '''') (Str ''greeter''))
   \<and> executeWithFallback (Suc 0) demo greeted (Str ''greeter'') (Str ''greet'') (Str ''John'') =
       execute (Suc 0) demo greeted (Str ''greeter'') (Str ''greet'') (Str ''John'')
   \<and> \<not> map_has (modules fresh) (dflt (Str '''') (Str ''greeter''))
   \<and> register (Suc 0) demo fresh (dflt (Str '''') (Str ''greeter'')) (Bool True) =
       Some (Inr (Obj [(''greet'', Fn ''greet'')]), greeted)
   \<and> map_option fst (executeWithFallback (Suc 0) demo fresh (Str ''greeter'') (Str ''greet'')
        (Str ''John'')) = Some (Inr (Str ''Hello John''))
   \<and> \<not> map_has (modules fallback_fresh) (dflt (Str '''') (Str ''shouter''))
   \<and> register (Suc 0) demo fallback_fresh (dflt (Str '''') (Str ''shouter'')) (Bool True) =
       Some (Inl (PackageLoadError ''./packages/shouter.json'' (Thrown (Str ''NotFound''))),
             shouter_failed)
   \<and> map_option fst (executeWithFallback (Suc 0) demo fallback_fresh (Str ''shouter'')
        (Str ''shouter'') (Str ''Hey You!!!'')) = Some (Inr (Str ''Hello Nobody''))"
proof -
  have d: "dflt (Str '''') (Str ''greeter'') = Str ''greeter''"
    "dflt (Str '''') (Str ''shouter'') = Str ''shouter''"
    by (simp_all add: dflt_def)
  have g: "map_has (modules greeted) (Str ''greeter'')"
    by (simp add: greeted_def fresh_def map_has_def builtins_def)
  have h: "\<not> map_has (modules fresh) (Str ''greeter'')"
    by (simp add: fresh_def map_has_def builtins_def)
  have r: "register (Suc 0) demo fresh (Str ''greeter'') (Bool True) =
       Some (Inr (Obj [(''greet'', Fn ''greet'')]), greeted)"
    using register_greeter by (simp add: register_default_build)
  have k: "\<not> map_has (modules fallback_fresh) (Str ''shouter'')"
    by (simp add: fallback_fresh_def fresh_def map_has_def builtins_def)
  have f: "defaultApp fallback_fresh = Str ''greeter''" "defaultCmd fallback_fresh = Str ''greet''"
    "defaultData fallback_fresh = Str ''Nobody''"
    by (simp_all add: fallback_fresh_def)
  note c1 = executeWithFallback_contract
      [of greeted "Str ''greeter''" "Suc 0" demo "Str ''greet''" "Str ''John''", unfolded d]
  note c2 = executeWithFallback_contract
      [of fresh "Str ''greeter''" "Suc 0" demo "Str ''greet''" "Str ''John''", unfolded d]
  note c3 = executeWithFallback_contract
      [of fallback_fresh "Str ''shouter''" "Suc 0" demo "Str ''shouter''" "Str ''Hey You!!!''",
        unfolded d]
  from c1 g have 1: "executeWithFallback (Suc 0) demo greeted (Str ''greeter'') (Str ''greet'')
      (Str ''John'') = execute (Suc 0) demo greeted (Str ''greeter'') (Str ''greet'') (Str ''John'')"
    by blast
  from c2 h r have "map_option fst (executeWithFallback (Suc 0) demo fresh (Str ''greeter'')
      (Str ''greet'') (Str ''John'')) =
      map_option fst (execute (Suc 0) demo fresh (Str ''greeter'') (Str ''greet'') (Str ''John''))"
    by blast
  then have 2: "map_option fst (executeWithFallback (Suc 0) demo fresh (Str ''greeter'')
      (Str ''greet'') (Str ''John'')) = Some (Inr (Str ''Hello John''))"
    by (simp add: execute_greeter)
  from c3 k register_shouter
  have "executeWithFallback (Suc 0) demo fallback_fresh (Str ''shouter'')
        (Str ''shouter'') (Str ''Hey You!!!'') =
      execute (Suc 0) demo
        (shouter_failed \<lparr> trace := trace shouter_failed @
           [ConsoleLog (fallbackMessage demo (Str ''shouter'') (defaultApp fallback_fresh))] \<rparr>)
        (defaultApp fallback_fresh) (defaultCmd fallback_fresh) (defaultData fallback_fresh)"
    by blast
  then have 3: "map_option fst (executeWithFallback (Suc 0) demo fallback_fresh (Str ''shouter'')
        (Str ''shouter'') (Str ''Hey You!!!'')) = Some (Inr (Str ''Hello Nobody''))"
    by (simp add: f execute_default)
  from 1 2 3 g h r k register_shouter d show ?thesis by simp
qed

section \<open>Batches\<close>

lemma runLoop_append:
  "runLoop n w s (xs @ ys) =
     (case runLoop n w s xs of
        None \<Rightarrow> None
      | Some (Inl e, s1) \<Rightarrow> Some (Inl e, s1)
      | Some (Inr r, s1) \<Rightarrow> runLoop n w s1 ys)"
  by (induction xs arbitrary: s) (auto split: option.splits sum.splits prod.splits)

text \<open>
  Claim C7. \<open>run\<close> executes the entries in list order, each in the state its
  predecessor left, and stops at the first failure: when the entries before \<open>e\<close> have
  all succeeded and \<open>execute\<close> fails on \<open>e\<close>, the outcome of \<open>run\<close> is that failure and
  the state is the one that failed \<open>execute\<close> left, whatever entries follow \<open>e\<close>: none
  of them is invoked. When \<open>e\<close> succeeds, \<open>run\<close> goes on with the rest. Each entry is
  executed as \<open>execute(pkg, cmd, data)\<close> on its three fields.
\<close>

theorem run_sequential:
  "(runLoop n w s es = Some (Inr r, s1) \<longrightarrow>
      (\<forall>err s2. runEntry n w s1 e = Some (Inl err, s2) \<longrightarrow>
         run n w s (Arr (es @ e # rest)) = Some (Inl err, s2))
    \<and> (\<forall>v s2. runEntry n w s1 e = Some (Inr v, s2) \<longrightarrow>
         run n w s (Arr (es @ e # rest)) = runLoop n w s2 rest))
   \<and> (destructurable e \<longrightarrow>
        runEntry n w s1 e = execute n w s1 (field e ''pkg'') (field e ''cmd'') (field e ''data''))
   \<and> run n w s (Arr []) = Some (Inr Undefined, s)"
  by (simp add: run_def dflt_def runLoop_append runEntry_def)

lemma runLoop_greeter:
  "runLoop (Suc 0) demo fresh [entry ''greeter'' ''greet'' ''John''] =
     Some (Inr Undefined, greeted)"
  by (simp add: runEntry_def entry_def destructurable_def field_def map_get_def execute_greeter)

lemma runEntry_shouter:
  "runEntry (Suc 0) demo greeted (entry ''shouter'' ''shout'' ''Hey'') =
     Some (Inl (PackageLoadError ''./packages/shouter.json'' (Thrown (Str ''NotFound''))),
           greeted_shouter_failed)"
  by (simp add: model_defs demo_defs greeted_def greeted_shouter_failed_def entry_def)

theorem run_sequential_witness:
  "runLoop (Suc 0) demo fresh [entry ''greeter'' ''greet'' ''John''] =
     Some (Inr Undefined, greeted)
   \<and> runEntry (Suc 0) demo greeted (entry ''shouter'' ''shout'' ''Hey'') =
       Some (Inl (PackageLoadError ''./packages/shouter.json'' (Thrown (Str ''NotFound''))),
             greeted_shouter_failed)
   \<and> run (Suc 0) demo fresh
         (Arr [entry ''greeter'' ''greet'' ''John'', entry ''shouter'' ''shout'' ''Hey'',
               entry ''greeter'' ''greet'' ''Jane'', entry ''hello'' ''greet'' ''Jim'']) =
       Some (Inl (PackageLoadError ''./packages/shouter.json'' (Thrown (Str ''NotFound''))),
             greeted_shouter_failed)
   \<and> loads (trace greeted_shouter_failed) =
       [''./packages/greeter.json'', ''./packages/shouter.json'']"
proof -
  have l: "loads (trace greeted_shouter_failed) =
       [''./packages/greeter.json'', ''./packages/shouter.json'']"
    by (simp add: greeted_shouter_failed_def greeted_def)
  from run_sequential [of "Suc 0" demo fresh "[entry ''greeter'' ''greet'' ''John'']" Undefined
      greeted "entry ''shouter'' ''shout'' ''Hey''"
      "[entry ''greeter'' ''greet'' ''Jane'', entry ''hello'' ''greet'' ''Jim'']"]
    runLoop_greeter runEntry_shouter l
  show ?thesis by simp
qed

section \<open>Descriptors that name a builder\<close>

lemma truthy_dflt: "truthy v \<Longrightarrow> dflt d v = v"
  by (auto simp: dflt_def)

lemma register_builder_branch:
  assumes "loadPackage w s (Str p) = (Inr pkg, s1)" "destructurable pkg"
    "\<not> truthy (field pkg ''source'')" "truthy (field pkg ''builder'')"
    "\<not> cached s (Str p) (Bool b)"
  shows "register (Suc n) w s (Str p) (Bool b) =
     createModuleFromBuilder (register n w) w s1 (Str p) (field pkg ''builder'')
       (field pkg ''factorySettings'')"
  using assms by (auto simp: register.simps dflt_def cached_def Let_def)

lemma applyAndBuild_built:
  "applyAndBuild w s mid bid fs = (Inr m, s') \<Longrightarrow>
     \<exists>a. map_get (builders s) bid = BuilderRef a \<and> a < length (heap s)
        \<and> s' = (applySettings s a fs) \<lparr> modules := map_set (modules s) mid m \<rparr>
        \<and> settings (heap s' ! a) = fs \<and> factory (heap s' ! a) = factory (heap s ! a)
        \<and> dependencies (heap s' ! a) = dependencies (heap s ! a)
        \<and> build w s' a = Inr m"
  by (auto simp: applyAndBuild_def applySettings_def build_def Let_def
      split: jsval.splits if_splits sum.splits)

text \<open>
  Claim C3. For an identifier whose descriptor has a \<open>builder\<close> and no \<open>source\<close>, a
  registration that is not answered from the cache first registers the referenced
  Builder with \<open>build = false\<close> unless the builder table already has it, then applies
  this descriptor's \<open>factorySettings\<close> to that Builder and builds. The module built is
  stored under the identifier and returned, and it is what the Builder yields under
  these settings. The \<open>build\<close> flag plays no part: for an identifier not loaded before,
  \<open>build = true\<close> and \<open>build = false\<close> give the same outcome.
\<close>

theorem register_builder_descriptor:
  "(loadPackage w s (Str p) = (Inr pkg, s1) \<and> destructurable pkg
      \<and> \<not> truthy (field pkg ''source'') \<and> truthy (field pkg ''builder'')
      \<and> \<not> cached s (Str p) (Bool b) \<longrightarrow>
      register (Suc n) w s (Str p) (Bool b) =
        (if map_has (builders s1) (field pkg ''builder'')
         then Some (applyAndBuild w s1 (Str p) (field pkg ''builder'')
                      (field pkg ''factorySettings''))
         else case register n w s1 (field pkg ''builder'') (Bool False) of
                None \<Rightarrow> None
              | Some (Inl e, s2) \<Rightarrow> Some (Inl e, s2)
              | Some (Inr r, s2) \<Rightarrow>
                  Some (applyAndBuild w s2 (Str p) (field pkg ''builder'')
                          (field pkg ''factorySettings''))))
   \<and> (applyAndBuild w s2 mid bid fs = (Inr m, s3) \<longrightarrow>
        map_has (modules s3) mid \<and> map_get (modules s3) mid = m
        \<and> (\<exists>a. map_get (builders s2) bid = BuilderRef a \<and> settings (heap s3 ! a) = fs
               \<and> build w s3 a = Inr m))
   \<and> (loadPackage w s (Str p) = (Inr pkg, s1) \<and> destructurable pkg
      \<and> \<not> truthy (field pkg ''source'') \<and> truthy (field pkg ''builder'')
      \<and> Str p \<notin> packages s \<longrightarrow>
      register (Suc n) w s (Str p) (Bool True) = register (Suc n) w s (Str p) (Bool False))"
proof (intro conjI impI)
  assume a: "loadPackage w s (Str p) = (Inr pkg, s1) \<and> destructurable pkg
      \<and> \<not> truthy (field pkg ''source'') \<and> truthy (field pkg ''builder'')
      \<and> \<not> cached s (Str p) (Bool b)"
  then have "register (Suc n) w s (Str p) (Bool b) =
     createModuleFromBuilder (register n w) w s1 (Str p) (field pkg ''builder'')
       (field pkg ''factorySettings'')"
    by (simp add: register_builder_branch)
  moreover from a have "dflt (Str []) (field pkg ''builder'') = field pkg ''builder''"
    by (simp add: truthy_dflt)
  moreover have "dflt (Str []) (Str p) = Str p"
    by (simp add: dflt_def)
  ultimately show "register (Suc n) w s (Str p) (Bool b) =
        (if map_has (builders s1) (field pkg ''builder'')
         then Some (applyAndBuild w s1 (Str p) (field pkg ''builder'')
                      (field pkg ''factorySettings''))
         else case register n w s1 (field pkg ''builder'') (Bool False) of
                None \<Rightarrow> None
              | Some (Inl e, s2) \<Rightarrow> Some (Inl e, s2)
              | Some (Inr r, s2) \<Rightarrow>
                  Some (applyAndBuild w s2 (Str p) (field pkg ''builder'')
                          (field pkg ''factorySettings'')))"
    by (simp add: createModuleFromBuilder_def Let_def
        split: option.splits sum.splits prod.splits)
next
  assume "applyAndBuild w s2 mid bid fs = (Inr m, s3)"
  then show "map_has (modules s3) mid" "map_get (modules s3) mid = m"
    "\<exists>a. map_get (builders s2) bid = BuilderRef a \<and> settings (heap s3 ! a) = fs
               \<and> build w s3 a = Inr m"
    using applyAndBuild_stored [of w s2 mid bid fs m s3] applyAndBuild_built [of w s2 mid bid fs m s3]
    by blast+
next
  assume a: "loadPackage w s (Str p) = (Inr pkg, s1) \<and> destructurable pkg
      \<and> \<not> truthy (field pkg ''source'') \<and> truthy (field pkg ''builder'')
      \<and> Str p \<notin> packages s"
  then have "\<not> cached s (Str p) (Bool True)" "\<not> cached s (Str p) (Bool False)"
    by (simp_all add: cached_def)
  with a show "register (Suc n) w s (Str p) (Bool True) = register (Suc n) w s (Str p) (Bool False)"
    by (simp add: register_builder_branch)
qed

lemma load_hello: "loadPackage demo fresh (Str ''hello'') = (Inr hello_descriptor, hello_loaded)"
  by (simp add: model_defs demo_defs hello_defs)

lemma register_builder_only:
  "register (Suc 0) demo hello_loaded (Str ''builder'') (Bool False) =
     Some (Inr (BuilderRef 0), builder_ready)"
  by (simp add: model_defs demo_defs hello_defs insert_commute)

lemma build_hello:
  "applyAndBuild demo builder_ready (Str ''hello'') (Str ''builder'')
     (Obj [(''message'', Str ''hi'')]) = (Inr hello_module, helloed)"
  by (simp add: model_defs demo_defs hello_defs)

theorem register_builder_descriptor_witness:
  "loadPackage demo fresh (Str ''hello'') = (Inr hello_descriptor, hello_loaded)
   \<and> destructurable hello_descriptor \<and> \<not> truthy (field hello_descriptor ''source'')
   \<and> truthy (field hello_descriptor ''builder'')
   \<and> \<not> cached fresh (Str ''hello'') (Bool False) \<and> Str ''hello'' \<notin> packages fresh
   \<and> \<not> map_has (builders hello_loaded) (Str ''builder'')
   \<and> register (Suc 0) demo hello_loaded (Str ''builder'') (Bool False) =
       Some (Inr (BuilderRef 0), builder_ready)
   \<and> register (Suc (Suc 0)) demo fresh (Str ''hello'') (Bool False) =
       Some (Inr hello_module, helloed)
   \<and> register (Suc (Suc 0)) demo fresh (Str ''hello'') (Bool True) =
       Some (Inr hello_module, helloed)
   \<and> map_get (modules helloed) (Str ''hello'') = hello_module
   \<and> settings (heap helloed ! 0) = Obj [(''message'', Str ''hi'')]"
proof -
  have d: "destructurable hello_descriptor" "\<not> truthy (field hello_descriptor ''source'')"
    "truthy (field hello_descriptor ''builder'')"
    "field hello_descriptor ''builder'' = Str ''builder''"
    "field hello_descriptor ''factorySettings'' = Obj [(''message'', Str ''hi'')]"
    by (simp_all add: hello_descriptor_def destructurable_def field_def map_get_def)
  have c: "\<not> cached fresh (Str ''hello'') (Bool False)" "Str ''hello'' \<notin> packages fresh"
    by (simp_all add: cached_def fresh_def)
  have b: "\<not> map_has (builders hello_loaded) (Str ''builder'')"
    by (simp add: hello_loaded_def fresh_def map_has_def)
  have m: "map_get (modules helloed) (Str ''hello'') = hello_module"
    "settings (heap helloed ! 0) = Obj [(''message'', Str ''hi'')]"
    by (simp_all add: helloed_def fresh_def map_get_def builtins_def)
  note t = register_builder_descriptor [of demo fresh "''hello''" hello_descriptor hello_loaded
      False "Suc 0"]
  from t load_hello d c b register_builder_only build_hello
  have 1: "register (Suc (Suc 0)) demo fresh (Str ''hello'') (Bool False) =
       Some (Inr hello_module, helloed)"
    by simp
  from t load_hello d c
  have "register (Suc (Suc 0)) demo fresh (Str ''hello'') (Bool True) =
      register (Suc (Suc 0)) demo fresh (Str ''hello'') (Bool False)"
    by blast
  with 1 load_hello d c b register_builder_only m show ?thesis by simp
qed

section \<open>Descriptors with dependencies\<close>

lemma parseDependencies_undefined: "parseDependencies x Undefined = Inl TypeError"
  by (simp add: parseDependencies_def destructurable_def)

lemma packagesBody_fails:
  "packagesBody reg s x deps = Some (Inl TypeError, s)"
  by (simp add: packagesBody_def parseDependencies_undefined)

lemma sourcesBody_fails: "sourcesBody w s x deps = (Inl TypeError, s)"
  by (simp add: sourcesBody_def parseDependencies_undefined)

lemma field_Arr_obj: "field v k = Arr xs \<Longrightarrow> \<exists>fs. v = Obj fs"
  by (cases v) (simp_all add: field_def split: if_splits)

lemma getDependencies_packages:
  assumes "field deps ''packages'' = Arr (x # xs)"
  shows "getDependencies reg w s deps = Some (Inl TypeError, s)"
proof -
  from assms obtain fs where "deps = Obj fs" by (blast dest: field_Arr_obj)
  with assms show ?thesis
    by (simp add: getDependencies_def Let_def dflt_def destructurable_def packagesBody_fails)
qed

lemma getDependencies_sources:
  assumes "field deps ''sources'' = Arr (x # xs)"
  shows "getDependencies reg w s deps = Some (Inl TypeError, s)"
proof -
  from assms obtain fs where d: "deps = Obj fs" by (blast dest: field_Arr_obj)
  show ?thesis
  proof (cases "\<exists>y ys. field deps ''packages'' = Arr (y # ys)")
    case True
    then show ?thesis by (auto simp: getDependencies_packages)
  next
    case False
    with assms d show ?thesis
      by (auto simp: getDependencies_def Let_def dflt_def destructurable_def sourcesBody_fails
          split: jsval.splits list.splits)
  qed
qed

lemma register_source_branch:
  assumes "loadPackage w s (Str p) = (Inr pkg, s1)" "destructurable pkg"
    "truthy (field pkg ''source'')" "\<not> cached s (Str p) (dflt (Bool True) b)"
    "getDependencies (register n w) w s1 (field pkg ''dependencies'') = Some (Inl e, s2)"
  shows "register (Suc n) w s (Str p) b = Some (Inl e, s2)"
  using assms by (auto simp: register.simps cached_def Let_def dflt_def)

text \<open>
  Claim C1 says that a non-empty \<open>dependencies.packages\<close> list is resolved into the
  dependency map handed to the Builder. The code does not get that far. Whenever the
  descriptor of an identifier has a \<open>source\<close> and a non-empty \<open>packages\<close> array, a
  registration that is not answered from the cache fails with a TypeError in the state
  that loading the descriptor left: no dependency is registered, no Builder is made.
  The one-argument call of \<open>#parseDependencies\<close> leaves \<open>dependency\<close> undefined, and
  the loop body fails on its first element whatever that element is.
\<close>

theorem register_package_dependencies:
  "(loadPackage w s (Str p) = (Inr pkg, s1) \<and> destructurable pkg
      \<and> truthy (field pkg ''source'') \<and> \<not> cached s (Str p) (dflt (Bool True) b)
      \<and> field (field pkg ''dependencies'') ''packages'' = Arr (x # xs) \<longrightarrow>
      register (Suc n) w s (Str p) b = Some (Inl TypeError, s1))
   \<and> parseDependencies x Undefined = Inl TypeError
   \<and> packagesBody reg s x deps = Some (Inl TypeError, s)"
  by (simp add: register_source_branch getDependencies_packages parseDependencies_undefined
      packagesBody_fails)

text \<open>
  Claim C2 says that a non-empty \<open>dependencies.sources\<close> list is loaded through the
  Source Loader and bound into the dependency map. The code fails here in the same
  way: with a \<open>source\<close> and a non-empty \<open>sources\<close> array in the descriptor, a registration
  that is not answered from the cache fails with a TypeError in the state that loading
  the descriptor left, before any source of the list is imported.
\<close>

theorem register_source_dependencies:
  "(loadPackage w s (Str p) = (Inr pkg, s1) \<and> destructurable pkg
      \<and> truthy (field pkg ''source'') \<and> \<not> cached s (Str p) (dflt (Bool True) b)
      \<and> field (field pkg ''dependencies'') ''sources'' = Arr (x # xs) \<longrightarrow>
      register (Suc n) w s (Str p) b = Some (Inl TypeError, s1))
   \<and> sourcesBody w s x deps = (Inl TypeError, s)"
  by (simp add: register_source_branch getDependencies_sources sourcesBody_fails)

lemma load_app: "loadPackage demo fresh (Str ''app'') = (Inr app_descriptor, app_loaded)"
  by (simp add: model_defs demo_defs app_descriptor_def app_loaded_def)

lemma load_tool: "loadPackage demo fresh (Str ''tool'') = (Inr tool_descriptor, tool_loaded)"
  by (simp add: model_defs demo_defs tool_descriptor_def tool_loaded_def)

theorem register_package_dependencies_witness:
  "loadPackage demo fresh (Str ''app'') = (Inr app_descriptor, app_loaded)
   \<and> destructurable app_descriptor \<and> truthy (field app_descriptor ''source'')
   \<and> \<not> cached fresh (Str ''app'') (dflt (Bool True) Undefined)
   \<and> field (field app_descriptor ''dependencies'') ''packages'' = Arr [Str ''greeter'']
   \<and> register (Suc (Suc 0)) demo fresh (Str ''app'') Undefined = Some (Inl TypeError, app_loaded)
   \<and> builders app_loaded = [] \<and> modules app_loaded = modules fresh"
proof -
  have d: "destructurable app_descriptor" "truthy (field app_descriptor ''source'')"
    "field (field app_descriptor ''dependencies'') ''packages'' = Arr [Str ''greeter'']"
    by (simp_all add: app_descriptor_def destructurable_def field_def map_get_def)
  have c: "\<not> cached fresh (Str ''app'') (dflt (Bool True) Undefined)"
    by (simp add: cached_def fresh_def)
  have s: "builders app_loaded = []" "modules app_loaded = modules fresh"
    by (simp_all add: app_loaded_def fresh_def)
  from register_package_dependencies [of demo fresh "''app''" app_descriptor app_loaded Undefined
      "Str ''greeter''" "[]" "Suc 0"] load_app d c s
  show ?thesis by simp
qed

theorem register_source_dependencies_witness:
  "loadPackage demo fresh (Str ''tool'') = (Inr tool_descriptor, tool_loaded)
   \<and> destructurable tool_descriptor \<and> truthy (field tool_descriptor ''source'')
   \<and> \<not> cached fresh (Str ''tool'') (dflt (Bool True) Undefined)
   \<and> field (field tool_descriptor ''dependencies'') ''sources'' =
       Arr [Obj [(''source'', Str ''/util.js''), (''name'', Str ''util'')]]
   \<and> register (Suc (Suc 0)) demo fresh (Str ''tool'') Undefined = Some (Inl TypeError, tool_loaded)
   \<and> builders tool_loaded = [] \<and> sources tool_loaded = []"
proof -
  have d: "destructurable tool_descriptor" "truthy (field tool_descriptor ''source'')"
    "field (field tool_descriptor ''dependencies'') ''sources'' =
       Arr [Obj [(''source'', Str ''/util.js''), (''name'', Str ''util'')]]"
    by (simp_all add: tool_descriptor_def destructurable_def field_def map_get_def)
  have c: "\<not> cached fresh (Str ''tool'') (dflt (Bool True) Undefined)"
    by (simp add: cached_def fresh_def)
  have s: "builders tool_loaded = []" "sources tool_loaded = []"
    by (simp_all add: tool_loaded_def fresh_def)
  from register_source_dependencies [of demo fresh "''tool''" tool_descriptor tool_loaded Undefined
      "Obj [(''source'', Str ''/util.js''), (''name'', Str ''util'')]" "[]" "Suc 0"]
    load_tool d c s
  show ?thesis by simp
qed

section \<open>Repeated registration\<close>

lemma register_hello:
  "register (Suc (Suc 0)) demo fresh (Str ''hello'') (Bool False) = Some (Inr hello_module, helloed)"
  by (simp add: model_defs demo_defs hello_defs insert_commute)

lemma register_hello_again:
  "map_option (loads \<circ> trace \<circ> snd)
     (register (Suc (Suc 0)) demo helloed (Str ''hello'') (Bool False)) =
   Some [''./packages/hello.json'', ''./packages/builder.json'', ''./packages/hello.json'']"
  by (simp add: model_defs demo_defs hello_defs insert_commute)

lemma register_zero:
  "register (Suc 0) demo fresh (Str ''zero'') (Bool True) = Some (Inr (Num 0), zero_built)"
  by (simp add: model_defs demo_defs zero_built_def)

lemma register_zero_again:
  "map_option (loads \<circ> trace \<circ> snd)
     (register (Suc 0) demo zero_built (Str ''zero'') (Bool True)) =
   Some [''./packages/zero.json'', ''./packages/zero.json'']"
  by (simp add: model_defs demo_defs zero_built_def)

text \<open>
  Claim C4, as stated: registering an identifier twice with \<open>build = true\<close> returns the
  same module with at most one invocation of the Descriptor Loader, and repeated
  registration with the same flag has no effect after the first call. Two inputs show
  otherwise. \<open>hello\<close> has a descriptor that names a builder: no Builder is ever stored
  under \<open>hello\<close>, so a second \<open>register("hello", false)\<close> loads \<open>hello.json\<close> again. The
  module of \<open>zero\<close> is the number 0, which the cache test \<open>if ( moduleOrBuilder )\<close> takes
  for absent, so a second \<open>register("zero")\<close> loads \<open>zero.json\<close> again.
\<close>

theorem register_idempotent_counterexample:
  "register (Suc (Suc 0)) demo fresh (Str ''hello'') (Bool False) = Some (Inr hello_module, helloed)
   \<and> loads (trace helloed) = [''./packages/hello.json'', ''./packages/builder.json'']
   \<and> map_option (loads \<circ> trace \<circ> snd)
         (register (Suc (Suc 0)) demo helloed (Str ''hello'') (Bool False)) =
       Some [''./packages/hello.json'', ''./packages/builder.json'', ''./packages/hello.json'']
   \<and> register (Suc 0) demo fresh (Str ''zero'') (Bool True) = Some (Inr (Num 0), zero_built)
   \<and> loads (trace zero_built) = [''./packages/zero.json'']
   \<and> map_option (loads \<circ> trace \<circ> snd)
         (register (Suc 0) demo zero_built (Str ''zero'') (Bool True)) =
       Some [''./packages/zero.json'', ''./packages/zero.json'']"
  using register_hello register_hello_again register_zero register_zero_again
  by (simp add: hello_defs zero_built_def)

lemma register_hit:
  "dflt (Str '''') i \<in> packages s \<Longrightarrow>
   truthy (if truthy (dflt (Bool True) b) then map_get (modules s) (dflt (Str '''') i)
           else map_get (builders s) (dflt (Str '''') i)) \<Longrightarrow>
   register (Suc k) w s i b =
     Some (Inr (if truthy (dflt (Bool True) b) then map_get (modules s) (dflt (Str '''') i)
                else map_get (builders s) (dflt (Str '''') i)), s)"
  by (simp add: register.simps Let_def)

lemma register_source_builder:
  assumes "loadPackage w s (Str p) = (Inr pkg, s1)" "destructurable pkg"
    "truthy (field pkg ''source'')" "\<not> cached s (Str p) (Bool False)"
    "register (Suc n) w s (Str p) (Bool False) = Some (Inr v, s')"
  shows "map_get (builders s') (Str p) = v \<and> truthy v"
  using assms
  by (auto simp: register.simps cached_def Let_def dflt_def registerBuilder_def map_get_set
      split: option.splits sum.splits prod.splits if_splits)

text \<open>
  Claim C4, amended. Once \<open>register(id, build)\<close> has returned a truthy value \<open>v\<close> that
  is the module stored under \<open>id\<close> (always so when \<open>build\<close> is true) or the Builder
  stored under \<open>id\<close> (so when \<open>build\<close> is false and the descriptor has a \<open>source\<close>), the
  same call again returns \<open>v\<close> and leaves the state as it is: no loader is invoked,
  nothing is built, nothing is logged.
\<close>

theorem register_idempotent:
  "(register n w s i b = Some (Inr v, s') \<and> truthy v \<and> truthy (dflt (Bool True) b) \<longrightarrow>
      register (Suc k) w s' i b = Some (Inr v, s'))
   \<and> (register n w s i b = Some (Inr v, s') \<and> truthy v \<and> \<not> truthy (dflt (Bool True) b)
        \<and> map_get (builders s') (dflt (Str '''') i) = v \<longrightarrow>
        register (Suc k) w s' i b = Some (Inr v, s'))
   \<and> (loadPackage w s (Str p) = (Inr pkg, s1) \<and> destructurable pkg
        \<and> truthy (field pkg ''source'') \<and> \<not> cached s (Str p) (Bool False)
        \<and> register (Suc n) w s (Str p) (Bool False) = Some (Inr v, s') \<longrightarrow>
        map_get (builders s') (Str p) = v \<and> truthy v)"
proof (intro conjI impI)
  assume a: "register n w s i b = Some (Inr v, s') \<and> truthy v \<and> truthy (dflt (Bool True) b)"
  then have "dflt (Str '''') i \<in> packages s'" "map_get (modules s') (dflt (Str '''') i) = v"
    using register_loaded [of n w s i b v s'] register_stored [of n w s i b v s'] by simp_all
  with a show "register (Suc k) w s' i b = Some (Inr v, s')"
    by (simp add: register_hit)
next
  assume a: "register n w s i b = Some (Inr v, s') \<and> truthy v \<and> \<not> truthy (dflt (Bool True) b)
        \<and> map_get (builders s') (dflt (Str '''') i) = v"
  then have "dflt (Str '''') i \<in> packages s'"
    using register_loaded [of n w s i b v s'] by simp
  with a show "register (Suc k) w s' i b = Some (Inr v, s')"
    by (simp add: register_hit)
next
  assume a: "loadPackage w s (Str p) = (Inr pkg, s1) \<and> destructurable pkg
        \<and> truthy (field pkg ''source'') \<and> \<not> cached s (Str p) (Bool False)
        \<and> register (Suc n) w s (Str p) (Bool False) = Some (Inr v, s')"
  then show "map_get (builders s') (Str p) = v" "truthy v"
    using register_source_builder [of w s p pkg s1 n v s'] by simp_all
qed

lemma load_builder:
  "loadPackage demo hello_loaded (Str ''builder'') = (Inr builder_descriptor, builder_loaded)"
  by (simp add: model_defs demo_defs hello_defs builder_descriptor_def builder_loaded_def)

theorem register_idempotent_witness:
  "register (Suc 0) demo fresh (Str ''greeter'') (Bool True) =
     Some (Inr (Obj [(''greet'', Fn ''greet'')]), greeted)
   \<and> truthy (Obj [(''greet'', Fn ''greet'')]) \<and> truthy (dflt (Bool True) (Bool True))
   \<and> register (Suc 0) demo greeted (Str ''greeter'') (Bool True) =
       Some (Inr (Obj [(''greet'', Fn ''greet'')]), greeted)
   \<and> loadPackage demo hello_loaded (Str ''builder'') = (Inr builder_descriptor, builder_loaded)
   \<and> destructurable builder_descriptor \<and> truthy (field builder_descriptor ''source'')
   \<and> \<not> cached hello_loaded (Str ''builder'') (Bool False)
   \<and> register (Suc 0) demo hello_loaded (Str ''builder'') (Bool False) =
       Some (Inr (BuilderRef 0), builder_ready)
   \<and> \<not> truthy (dflt (Bool True) (Bool False))
   \<and> map_get (builders builder_ready) (dflt (Str '''') (Str ''builder'')) = BuilderRef 0
   \<and> register (Suc 0) demo builder_ready (Str ''builder'') (Bool False) =
       Some (Inr (BuilderRef 0), builder_ready)"
proof -
  have r: "register (Suc 0) demo fresh (Str ''greeter'') (Bool True) =
       Some (Inr (Obj [(''greet'', Fn ''greet'')]), greeted)"
    using register_greeter by (simp add: register_default_build)
  have d: "destructurable builder_descriptor" "truthy (field builder_descriptor ''source'')"
    "\<not> cached hello_loaded (Str ''builder'') (Bool False)"
    "dflt (Bool True) (Bool True) = Bool True" "dflt (Bool True) (Bool False) = Bool False"
    "dflt (Str '''') (Str ''builder'') = Str ''builder''"
    by (simp_all add: builder_descriptor_def destructurable_def field_def map_get_def cached_def
        hello_loaded_def fresh_def dflt_def)
  note t1 = register_idempotent [of "Suc 0" demo fresh "Str ''greeter''" "Bool True"
      "Obj [(''greet'', Fn ''greet'')]" greeted 0]
  note t2 = register_idempotent [of "Suc 0" demo hello_loaded "Str ''builder''" "Bool False"
      "BuilderRef 0" builder_ready 0]
  note t3 = register_idempotent [where n = 0 and w = demo and s = hello_loaded
      and v = "BuilderRef 0" and s' = builder_ready and p = "''builder''"
      and pkg = builder_descriptor and ?s1.0 = builder_loaded]
  from t1 r d have 1: "register (Suc 0) demo greeted (Str ''greeter'') (Bool True) =
       Some (Inr (Obj [(''greet'', Fn ''greet'')]), greeted)"
    by simp
  from t3 load_builder d register_builder_only
  have 2: "map_get (builders builder_ready) (Str ''builder'') = BuilderRef 0"
    by simp
  with t2 d register_builder_only
  have 3: "register (Suc 0) demo builder_ready (Str ''builder'') (Bool False) =
       Some (Inr (BuilderRef 0), builder_ready)"
    by simp
  from r 1 2 3 d load_builder register_builder_only show ?thesis by simp
qed

section \<open>The built-in entries of the module table\<close>


























end
